theory Spec2Isabelle
  imports Main "HOL-Library.Word"
begin

section \<open>The row extractors of sqlite_orm\<close>

text \<open>
  The header \<^verbatim>\<open>dev/row_extractor.h\<close> defines the class template
  \<^verbatim>\<open>row_extractor<V>\<close> and its specialisations. Every specialisation has up to three
  overloads of one member function:
  \<^item> from column text (\<^verbatim>\<open>const char*\<close>, one-step execution through a callback),
  \<^item> from a column of a statement (\<^verbatim>\<open>sqlite3_stmt*, int\<close>, multi-step execution),
  \<^item> from a boxed value (\<^verbatim>\<open>sqlite3_value*\<close>, arguments of user-defined functions).

  The C++ selects the specialisation by the type \<^verbatim>\<open>V\<close> at compile time. The embedding
  describes \<^verbatim>\<open>V\<close> by a value of the datatype \<open>ctype\<close> and each overload by one function
  over \<open>ctype\<close>, with one equation per specialisation, in the order of the header. An
  overload that is deleted or not declared, and one whose body would not compile, yields
  the error \<open>deleted_function\<close>; a C++ exception and undefined behaviour are errors too.
\<close>

subsection \<open>Bytes, C strings and errors\<close>

type_synonym byte = "8 word"

text \<open>
  A \<^verbatim>\<open>const char*\<close> is \<open>None\<close> when it is the null pointer; \<open>Some m\<close> points at the
  bytes \<open>m\<close>, which a terminating NUL byte follows in memory. The C string at the pointer
  ends before the first NUL byte, so \<open>m\<close> may hold bytes that no C string function sees.
\<close>

type_synonym cstr = "byte list option"

definition c_str :: "byte list \<Rightarrow> byte list" where
  "c_str m = takeWhile (\<lambda>b. b \<noteq> 0) m"

definition strlen :: "byte list \<Rightarrow> nat" where
  "strlen m = length (c_str m)"

definition bytes_of :: "string \<Rightarrow> byte list" where
  "bytes_of s = map of_char s"

text \<open>
  What an extraction can do other than return a value:
  \<^item> \<open>deleted_function\<close>: the call does not compile (the overload is \<^verbatim>\<open>= delete\<close>, is not
    declared, or calls such an overload of a wrapped type);
  \<^item> \<open>undefined_behaviour\<close>: the C standard gives the call no meaning (a null pointer handed
    to \<^verbatim>\<open>atoi\<close>, a result that the integer type cannot hold, a read after the end of
    \<^verbatim>\<open>argv\<close> or of the engine's UTF-16 text);
  \<^item> \<open>incorrect_journal_mode_string\<close>: the \<^verbatim>\<open>std::system_error\<close> of lines 437 and 440;
  \<^item> \<open>range_error\<close>: the \<^verbatim>\<open>std::range_error\<close> that \<^verbatim>\<open>std::wstring_convert::from_bytes\<close>
    throws when the conversion fails.
\<close>

datatype error =
    deleted_function
  | undefined_behaviour
  | incorrect_journal_mode_string
  | range_error

subsection \<open>The C library: atoi and atoll\<close>

definition isspace :: "byte \<Rightarrow> bool" where
  "isspace c \<longleftrightarrow> (c = 0x20 \<or> (0x09 \<le> c \<and> c \<le> 0x0D))"

definition isdigit :: "byte \<Rightarrow> bool" where
  "isdigit c \<longleftrightarrow> (0x30 \<le> c \<and> c \<le> 0x39)"

fun digits_value :: "int \<Rightarrow> byte list \<Rightarrow> int" where
  "digits_value acc [] = acc"
| "digits_value acc (c # cs) =
     (if isdigit c then digits_value (acc * 10 + (uint c - 0x30)) cs else acc)"

text \<open>
  The number that \<^verbatim>\<open>strtol(s, NULL, 10)\<close> reads, before any range check: white space is
  skipped, one sign is read, and the digits that follow are the value (0 without digits).
\<close>

definition strtol10 :: "byte list \<Rightarrow> int" where
  "strtol10 s =
     (case dropWhile isspace s of
        [] \<Rightarrow> 0
      | c # cs \<Rightarrow>
          if c = 0x2D then - digits_value 0 cs
          else if c = 0x2B then digits_value 0 cs
          else digits_value 0 (c # cs))"

text \<open>
  \<^verbatim>\<open>atoi\<close> and \<^verbatim>\<open>atoll\<close>: the behaviour is undefined for a null pointer and when the
  value cannot be represented in \<^verbatim>\<open>int\<close> (32 bits) or \<^verbatim>\<open>long long\<close> (64 bits).
\<close>

definition atoi :: "cstr \<Rightarrow> error + int" where
  "atoi p =
     (case p of
        None \<Rightarrow> Inl undefined_behaviour
      | Some m \<Rightarrow>
          (let v = strtol10 (c_str m)
           in if - (2 ^ 31) \<le> v \<and> v < 2 ^ 31 then Inr v else Inl undefined_behaviour))"

definition atoll :: "cstr \<Rightarrow> error + int" where
  "atoll p =
     (case p of
        None \<Rightarrow> Inl undefined_behaviour
      | Some m \<Rightarrow>
          (let v = strtol10 (c_str m)
           in if - (2 ^ 63) \<le> v \<and> v < 2 ^ 63 then Inr v else Inl undefined_behaviour))"

subsection \<open>Arithmetic types\<close>

text \<open>
  What the arithmetic specialisation needs of a type \<^verbatim>\<open>V\<close> with
  \<^verbatim>\<open>std::is_arithmetic<V>\<close>: whether it is \<^verbatim>\<open>bool\<close>, another integral type (signed or
  not, and \<^verbatim>\<open>sizeof(V)\<close> in bytes) or a floating-point type.
\<close>

datatype arith =
    cxx_bool
  | cxx_integral bool nat
  | cxx_floating nat

datatype arithmetic_tag = int_or_smaller_tag | bigint_tag | real_tag

text \<open>
  Modelled from the spec: \<^verbatim>\<open>arithmetic_tag.h\<close>, which declares
  \<^verbatim>\<open>arithmetic_tag_t\<close>, is not among the sources. The spec: the arithmetic codec
  "dispatches to int32-or-smaller / 64-bit-integer / floating-point sub-strategies based
  on native type size/category". \<^verbatim>\<open>sizeof(int)\<close> is 4 and \<^verbatim>\<open>sizeof(bool)\<close> is 1.
\<close>

definition arithmetic_tag_t :: "arith \<Rightarrow> arithmetic_tag" where
  "arithmetic_tag_t a =
     (case a of
        cxx_bool \<Rightarrow> int_or_smaller_tag
      | cxx_integral _ n \<Rightarrow> if n \<le> 4 then int_or_smaller_tag else bigint_tag
      | cxx_floating _ \<Rightarrow> real_tag)"

text \<open>
  \<^verbatim>\<open>static_cast<V>\<close> of an integer to an integral \<^verbatim>\<open>V\<close>: \<^verbatim>\<open>bool\<close> tests for non-zero,
  an unsigned type keeps the value modulo \<open>2 ^ (8 * sizeof V)\<close>, a signed type the two's
  complement value of the same bits. The result is the value as a mathematical integer.
  The tag of a floating-point type is \<open>real_tag\<close>, so the header never casts an integer to
  one; the function leaves the integer as it is there.
\<close>

definition static_cast_integral :: "arith \<Rightarrow> int \<Rightarrow> int" where
  "static_cast_integral a x =
     (case a of
        cxx_bool \<Rightarrow> if x \<noteq> 0 then 1 else 0
      | cxx_integral sg n \<Rightarrow> if sg then signed_take_bit (8 * n - 1) x else take_bit (8 * n) x
      | cxx_floating _ \<Rightarrow> x)"

subsection \<open>What the embedding takes as given\<close>

text \<open>
  Floating-point numbers and the conversions between character encodings are computed
  by the C and C++ libraries and by the engine. The embedding takes them as parameters,
  over any type \<open>'d\<close> of floating-point values; a theorem that needs a property of one
  of them states it as a hypothesis.
  \<^item> \<open>double_of_int\<close>: the \<^verbatim>\<open>double\<close> nearest to an integer, which is what a conversion
    of that integer to \<^verbatim>\<open>double\<close> returns, from a machine integer as from its decimal
    text;
  \<^item> \<open>strtod_other\<close>: \<^verbatim>\<open>atof\<close> on a C string that is not a decimal integer;
  \<^item> \<open>static_cast_floating\<close>: \<^verbatim>\<open>static_cast<V>\<close> of a \<^verbatim>\<open>double\<close> to a floating-point \<^verbatim>\<open>V\<close>;
  \<^item> \<open>double_zero\<close>, \<open>double_to_int64\<close>, \<open>double_to_text\<close>, \<open>text_to_int64\<close>,
    \<open>text_to_double\<close>: the engine's \<open>0.0\<close> and its conversions between the storage
    classes INTEGER, REAL and TEXT;
  \<^item> \<open>from_bytes\<close>: \<^verbatim>\<open>std::wstring_convert<std::codecvt_utf8_utf16<wchar_t>>::from_bytes\<close>
    on the C string, \<open>None\<close> when it throws \<^verbatim>\<open>std::range_error\<close>;
  \<^item> \<open>text16\<close>: the UTF-16 code units, in the byte order of the machine, that the engine
    makes of a text (\<^verbatim>\<open>sqlite3_value_text16\<close>);
  \<^item> \<open>sizeof_wchar_t\<close> and \<open>little_endian\<close>: the width of \<^verbatim>\<open>wchar_t\<close> (two bytes or
    four) and the byte order of the machine.
\<close>

datatype wchar_size = two_bytes | four_bytes

record 'd platform =
  double_of_int :: "int \<Rightarrow> 'd"
  strtod_other :: "byte list \<Rightarrow> 'd"
  static_cast_floating :: "arith \<Rightarrow> 'd \<Rightarrow> 'd"
  double_zero :: "'d"
  double_to_int64 :: "'d \<Rightarrow> 64 word"
  double_to_text :: "'d \<Rightarrow> byte list"
  text_to_int64 :: "byte list \<Rightarrow> 64 word"
  text_to_double :: "byte list \<Rightarrow> 'd"
  from_bytes :: "byte list \<Rightarrow> nat list option"
  text16 :: "byte list \<Rightarrow> 16 word list"
  sizeof_wchar_t :: wchar_size
  little_endian :: bool

text \<open>
  \<^verbatim>\<open>atof(s)\<close> is \<^verbatim>\<open>strtod(s, NULL)\<close>: the \<^verbatim>\<open>double\<close> nearest to the decimal number that
  the C string holds. A C string is a decimal integer when it is white space, at most one
  sign and one digit or more, with nothing after the digits; the number it holds is then
  the integer that \<open>strtol10\<close> reads. Minus zero is left out: its \<^verbatim>\<open>double\<close> is \<open>-0.0\<close>,
  which is the \<^verbatim>\<open>double\<close> of no integer. The behaviour is undefined for a null pointer.
\<close>

definition decimal_integer :: "byte list \<Rightarrow> bool" where
  "decimal_integer s =
     (case dropWhile isspace s of
        [] \<Rightarrow> False
      | c # cs \<Rightarrow>
          if c = 0x2D then cs \<noteq> [] \<and> list_all isdigit cs \<and> digits_value 0 cs \<noteq> 0
          else if c = 0x2B then cs \<noteq> [] \<and> list_all isdigit cs
          else list_all isdigit (c # cs))"

definition strtod :: "'d platform \<Rightarrow> byte list \<Rightarrow> 'd" where
  "strtod P s = (if decimal_integer s then double_of_int P (strtol10 s) else strtod_other P s)"

definition atof :: "'d platform \<Rightarrow> cstr \<Rightarrow> error + 'd" where
  "atof P p =
     (case p of
        None \<Rightarrow> Inl undefined_behaviour
      | Some m \<Rightarrow> Inr (strtod P (c_str m)))"

subsection \<open>The engine: dynamically typed values and their accessors\<close>

text \<open>
  The header calls the engine through \<^verbatim>\<open>sqlite3.h\<close>. The engine is not part of the
  repository; its values and accessors are modelled here as its documentation describes
  them, as far as the header uses them.

  A value of the engine has one of the five storage classes. A pointer that was passed
  through the pointer-passing interface is a value of its own: every accessor but
  \<^verbatim>\<open>sqlite3_value_pointer\<close> sees it as NULL. It holds an address and the type string it
  was bound with.
\<close>

datatype 'd sqlite3_value =
    SQL_NULL
  | SQL_INTEGER "64 word"
  | SQL_FLOAT 'd
  | SQL_TEXT "byte list"
  | SQL_BLOB "byte list"
  | SQL_POINTER nat string

definition SQLITE_INTEGER :: int where "SQLITE_INTEGER = 1"
definition SQLITE_FLOAT :: int where "SQLITE_FLOAT = 2"
definition SQLITE_TEXT :: int where "SQLITE_TEXT = 3"
definition SQLITE_BLOB :: int where "SQLITE_BLOB = 4"
definition SQLITE_NULL :: int where "SQLITE_NULL = 5"

fun sqlite3_value_type :: "'d sqlite3_value \<Rightarrow> int" where
  "sqlite3_value_type SQL_NULL = SQLITE_NULL"
| "sqlite3_value_type (SQL_INTEGER i) = SQLITE_INTEGER"
| "sqlite3_value_type (SQL_FLOAT d) = SQLITE_FLOAT"
| "sqlite3_value_type (SQL_TEXT t) = SQLITE_TEXT"
| "sqlite3_value_type (SQL_BLOB b) = SQLITE_BLOB"
| "sqlite3_value_type (SQL_POINTER a t) = SQLITE_NULL"

text \<open>The decimal text of an integer, as the engine prints a value of class INTEGER.\<close>

definition digit_char :: "nat \<Rightarrow> byte" where
  "digit_char d = of_nat (0x30 + d)"

function nat_digits :: "nat \<Rightarrow> byte list" where
  "nat_digits n = (if n < 10 then [digit_char n] else nat_digits (n div 10) @ [digit_char (n mod 10)])"
  by pat_completeness auto
termination
  by (relation "measure id") auto

declare nat_digits.simps [simp del]

definition decimal :: "int \<Rightarrow> byte list" where
  "decimal i = (if i < 0 then 0x2D # nat_digits (nat (- i)) else nat_digits (nat i))"

text \<open>
  The accessors convert between the storage classes as the engine documents it: NULL is
  \<open>0\<close>, \<open>0.0\<close> and the null pointer; \<^verbatim>\<open>sqlite3_value_int\<close> keeps the low 32 bits of the
  64-bit integer; the text and the blob of a number are its printed form; the blob of
  text and the text of a blob are the same bytes; a blob of no bytes is the null pointer.
\<close>

fun sqlite3_value_int64 :: "'d platform \<Rightarrow> 'd sqlite3_value \<Rightarrow> 64 word" where
  "sqlite3_value_int64 P SQL_NULL = 0"
| "sqlite3_value_int64 P (SQL_INTEGER i) = i"
| "sqlite3_value_int64 P (SQL_FLOAT d) = double_to_int64 P d"
| "sqlite3_value_int64 P (SQL_TEXT t) = text_to_int64 P t"
| "sqlite3_value_int64 P (SQL_BLOB b) = text_to_int64 P b"
| "sqlite3_value_int64 P (SQL_POINTER a t) = 0"

definition sqlite3_value_int :: "'d platform \<Rightarrow> 'd sqlite3_value \<Rightarrow> 32 word" where
  "sqlite3_value_int P v = ucast (sqlite3_value_int64 P v)"

fun sqlite3_value_double :: "'d platform \<Rightarrow> 'd sqlite3_value \<Rightarrow> 'd" where
  "sqlite3_value_double P SQL_NULL = double_zero P"
| "sqlite3_value_double P (SQL_INTEGER i) = double_of_int P (sint i)"
| "sqlite3_value_double P (SQL_FLOAT d) = d"
| "sqlite3_value_double P (SQL_TEXT t) = text_to_double P t"
| "sqlite3_value_double P (SQL_BLOB b) = text_to_double P b"
| "sqlite3_value_double P (SQL_POINTER a t) = double_zero P"

fun sqlite3_value_text :: "'d platform \<Rightarrow> 'd sqlite3_value \<Rightarrow> cstr" where
  "sqlite3_value_text P SQL_NULL = None"
| "sqlite3_value_text P (SQL_INTEGER i) = Some (decimal (sint i))"
| "sqlite3_value_text P (SQL_FLOAT d) = Some (double_to_text P d)"
| "sqlite3_value_text P (SQL_TEXT t) = Some t"
| "sqlite3_value_text P (SQL_BLOB b) = Some b"
| "sqlite3_value_text P (SQL_POINTER a t) = None"

text \<open>
  \<^verbatim>\<open>sqlite3_value_text16\<close> is the null pointer for NULL; otherwise it points at the
  UTF-16 code units of the text, which one zero code unit (two bytes) follows in memory.
\<close>

definition sqlite3_value_text16 :: "'d platform \<Rightarrow> 'd sqlite3_value \<Rightarrow> 16 word list option" where
  "sqlite3_value_text16 P v = map_option (text16 P) (sqlite3_value_text P v)"

definition sqlite3_value_bytes :: "'d platform \<Rightarrow> 'd sqlite3_value \<Rightarrow> nat" where
  "sqlite3_value_bytes P v = (case sqlite3_value_text P v of None \<Rightarrow> 0 | Some m \<Rightarrow> length m)"

definition sqlite3_value_blob :: "'d platform \<Rightarrow> 'd sqlite3_value \<Rightarrow> byte list option" where
  "sqlite3_value_blob P v =
     (case sqlite3_value_text P v of
        None \<Rightarrow> None
      | Some m \<Rightarrow> if m = [] then None else Some m)"

fun sqlite3_value_pointer :: "'d sqlite3_value \<Rightarrow> string \<Rightarrow> nat option" where
  "sqlite3_value_pointer (SQL_POINTER a t) tag = (if t = tag then Some a else None)"
| "sqlite3_value_pointer v tag = None"

text \<open>
  A statement that stands on a row is the list of the row's values. A column accessor is
  the value accessor on the column's value; a column that the row does not have reads as
  NULL.
\<close>

type_synonym 'd sqlite3_stmt = "'d sqlite3_value list"

definition column_value :: "'d sqlite3_stmt \<Rightarrow> int \<Rightarrow> 'd sqlite3_value" where
  "column_value stmt i = (if 0 \<le> i \<and> nat i < length stmt then stmt ! nat i else SQL_NULL)"

definition sqlite3_column_type :: "'d sqlite3_stmt \<Rightarrow> int \<Rightarrow> int" where
  "sqlite3_column_type stmt i = sqlite3_value_type (column_value stmt i)"

definition sqlite3_column_int :: "'d platform \<Rightarrow> 'd sqlite3_stmt \<Rightarrow> int \<Rightarrow> 32 word" where
  "sqlite3_column_int P stmt i = sqlite3_value_int P (column_value stmt i)"

definition sqlite3_column_int64 :: "'d platform \<Rightarrow> 'd sqlite3_stmt \<Rightarrow> int \<Rightarrow> 64 word" where
  "sqlite3_column_int64 P stmt i = sqlite3_value_int64 P (column_value stmt i)"

definition sqlite3_column_double :: "'d platform \<Rightarrow> 'd sqlite3_stmt \<Rightarrow> int \<Rightarrow> 'd" where
  "sqlite3_column_double P stmt i = sqlite3_value_double P (column_value stmt i)"

definition sqlite3_column_text :: "'d platform \<Rightarrow> 'd sqlite3_stmt \<Rightarrow> int \<Rightarrow> cstr" where
  "sqlite3_column_text P stmt i = sqlite3_value_text P (column_value stmt i)"

definition sqlite3_column_bytes :: "'d platform \<Rightarrow> 'd sqlite3_stmt \<Rightarrow> int \<Rightarrow> nat" where
  "sqlite3_column_bytes P stmt i = sqlite3_value_bytes P (column_value stmt i)"

definition sqlite3_column_blob :: "'d platform \<Rightarrow> 'd sqlite3_stmt \<Rightarrow> int \<Rightarrow> byte list option" where
  "sqlite3_column_blob P stmt i = sqlite3_value_blob P (column_value stmt i)"

text \<open>
  One-step execution hands the callback the text of every column of the row:
  \<^verbatim>\<open>argv[i]\<close> is the column's text, the null pointer for NULL.
\<close>

definition callback_argv :: "'d platform \<Rightarrow> 'd sqlite3_stmt \<Rightarrow> cstr list" where
  "callback_argv P stmt = map (sqlite3_value_text P) stmt"

subsection \<open>Journal modes\<close>

text \<open>
  Modelled from the spec: \<^verbatim>\<open>journal_mode.h\<close>, which declares the enumeration
  \<^verbatim>\<open>journal_mode\<close> and \<^verbatim>\<open>internal::journal_mode_from_string\<close>, is not among the sources.
  The spec: "decoding from text parses a fixed vocabulary of mode names", and \<^verbatim>\<open>"wal"\<close> is
  a mode name while \<^verbatim>\<open>"bogus"\<close> is none. The vocabulary is the engine's six journal modes;
  the engine reports them in lower case, so the comparison is made on the upper-cased
  string. The result is \<open>None\<close> for the empty pointer that the C++ function returns.
\<close>

datatype journal_mode = DELETE | TRUNCATE | PERSIST | MEMORY | WAL | OFF

definition toupper :: "byte \<Rightarrow> byte" where
  "toupper c = (if 0x61 \<le> c \<and> c \<le> 0x7A then c - 0x20 else c)"

fun to_string :: "journal_mode \<Rightarrow> byte list" where
  "to_string DELETE = bytes_of ''DELETE''"
| "to_string TRUNCATE = bytes_of ''TRUNCATE''"
| "to_string PERSIST = bytes_of ''PERSIST''"
| "to_string MEMORY = bytes_of ''MEMORY''"
| "to_string WAL = bytes_of ''WAL''"
| "to_string OFF = bytes_of ''OFF''"

definition journal_mode_from_string :: "byte list \<Rightarrow> journal_mode option" where
  "journal_mode_from_string str =
     find (\<lambda>j. to_string j = map toupper str) [DELETE, TRUNCATE, PERSIST, MEMORY, WAL, OFF]"

subsection \<open>Native types and native values\<close>

text \<open>
  The types \<^verbatim>\<open>V\<close> of \<^verbatim>\<open>row_extractor<V>\<close>, in the order of the header:
  \<^verbatim>\<open>pointer_arg<P, T>\<close> (with the type string \<^verbatim>\<open>T::value\<close>), \<^verbatim>\<open>pointer_binding<P, T, D>\<close>
  (declared, never defined), the arithmetic types, \<^verbatim>\<open>std::string\<close> and the classes
  derived from it, \<^verbatim>\<open>std::wstring\<close>, \<^verbatim>\<open>std::unique_ptr<T>\<close> and
  \<^verbatim>\<open>std::shared_ptr<T>\<close>, \<^verbatim>\<open>std::optional<T>\<close>, \<^verbatim>\<open>nullptr_t\<close>, \<^verbatim>\<open>std::vector<char>\<close>,
  \<^verbatim>\<open>std::tuple<Args...>\<close> and \<^verbatim>\<open>journal_mode\<close>; \<open>T_unspecialized\<close> is any type that
  only the primary template matches.
\<close>

datatype std_ptr = unique_ptr | shared_ptr

datatype ctype =
    T_pointer_arg string
  | T_pointer_binding
  | T_arithmetic arith
  | T_string
  | T_wstring
  | T_std_ptr std_ptr ctype
  | T_optional ctype
  | T_nullptr
  | T_vector_char
  | T_tuple "ctype list"
  | T_journal_mode
  | T_unspecialized

text \<open>
  The values of these types. An integral value is its mathematical value, a wide string
  the list of its \<^verbatim>\<open>wchar_t\<close> units; an optional is \<^verbatim>\<open>std::nullopt\<close> or holds a value;
  a smart pointer is empty or owns a value. \<^verbatim>\<open>is_std_ptr.h\<close>, which declares
  \<^verbatim>\<open>is_std_ptr<V>::make\<close>, is not among the sources: by the spec the smart pointer
  "materializes via the pointer type's allocation/construction strategy", so \<open>make\<close> of a
  value is the pointer that owns it. The header is read with
  \<^verbatim>\<open>SQLITE_ORM_OPTIONAL_SUPPORTED\<close> defined and \<^verbatim>\<open>SQLITE_ORM_OMITS_CODECVT\<close> not defined.
\<close>

datatype 'd native =
    V_pointer_arg "nat option"
  | V_integral int
  | V_floating 'd
  | V_string "byte list"
  | V_wstring "nat list"
  | V_std_ptr std_ptr "'d native option"
  | V_optional "'d native option"
  | V_nullptr
  | V_vector_char "byte list"
  | V_tuple "'d native list"
  | V_journal_mode journal_mode

subsection \<open>Which overloads can be called\<close>

text \<open>
  A call of an overload compiles when the overload is declared and not deleted, and
  every call in its body compiles. With C++20 concepts the requires-clauses of the two
  wrappers (lines 277, 290, 304, 324, 337, 351) say the same of the wrapped type; without
  them the body of the wrapper fails to compile in the same cases.
  A tuple has no overload for \<^verbatim>\<open>const char*\<close> (it reads \<^verbatim>\<open>char** argv\<close> instead) and
  none for \<^verbatim>\<open>sqlite3_value*\<close>; \<^verbatim>\<open>journal_mode\<close> has none for \<^verbatim>\<open>sqlite3_value*\<close>.
\<close>

fun column_text_extractable :: "ctype \<Rightarrow> bool" where
  "column_text_extractable (T_pointer_arg tag) = False"
| "column_text_extractable T_pointer_binding = False"
| "column_text_extractable (T_arithmetic a) = True"
| "column_text_extractable T_string = True"
| "column_text_extractable T_wstring = True"
| "column_text_extractable (T_std_ptr k U) = column_text_extractable U"
| "column_text_extractable (T_optional U) = column_text_extractable U"
| "column_text_extractable T_nullptr = True"
| "column_text_extractable T_vector_char = True"
| "column_text_extractable (T_tuple Ts) = False"
| "column_text_extractable T_journal_mode = True"
| "column_text_extractable T_unspecialized = False"

fun row_value_extractable :: "ctype \<Rightarrow> bool" where
  "row_value_extractable (T_pointer_arg tag) = False"
| "row_value_extractable T_pointer_binding = False"
| "row_value_extractable (T_arithmetic a) = True"
| "row_value_extractable T_string = True"
| "row_value_extractable T_wstring = True"
| "row_value_extractable (T_std_ptr k U) = row_value_extractable U"
| "row_value_extractable (T_optional U) = row_value_extractable U"
| "row_value_extractable T_nullptr = True"
| "row_value_extractable T_vector_char = True"
| "row_value_extractable (T_tuple Ts) = list_all row_value_extractable Ts"
| "row_value_extractable T_journal_mode = True"
| "row_value_extractable T_unspecialized = False"

fun boxed_value_extractable :: "ctype \<Rightarrow> bool" where
  "boxed_value_extractable (T_pointer_arg tag) = True"
| "boxed_value_extractable T_pointer_binding = False"
| "boxed_value_extractable (T_arithmetic a) = True"
| "boxed_value_extractable T_string = True"
| "boxed_value_extractable T_wstring = True"
| "boxed_value_extractable (T_std_ptr k U) = boxed_value_extractable U"
| "boxed_value_extractable (T_optional U) = boxed_value_extractable U"
| "boxed_value_extractable T_nullptr = True"
| "boxed_value_extractable T_vector_char = True"
| "boxed_value_extractable (T_tuple Ts) = False"
| "boxed_value_extractable T_journal_mode = False"
| "boxed_value_extractable T_unspecialized = False"

text \<open>A tuple can be read from \<^verbatim>\<open>argv\<close> when every element can be read from column text.\<close>

definition argv_extractable :: "ctype list \<Rightarrow> bool" where
  "argv_extractable Ts = list_all column_text_extractable Ts"

subsection \<open>The arithmetic specialisation (lines 153 to 205)\<close>

text \<open>
  The public overloads pass \<^verbatim>\<open>tag()\<close> to one of nine private overloads; the case on
  the tag is that choice.
\<close>

definition arithmetic_extract_text :: "'d platform \<Rightarrow> arith \<Rightarrow> cstr \<Rightarrow> error + 'd native" where
  "arithmetic_extract_text P a columnText =
     (case arithmetic_tag_t a of
        int_or_smaller_tag \<Rightarrow>
          map_sum id (\<lambda>x. V_integral (static_cast_integral a x)) (atoi columnText)
      | bigint_tag \<Rightarrow>
          map_sum id (\<lambda>x. V_integral (static_cast_integral a x)) (atoll columnText)
      | real_tag \<Rightarrow>
          map_sum id (\<lambda>x. V_floating (static_cast_floating P a x)) (atof P columnText))"

definition arithmetic_extract_stmt ::
  "'d platform \<Rightarrow> arith \<Rightarrow> 'd sqlite3_stmt \<Rightarrow> int \<Rightarrow> 'd native" where
  "arithmetic_extract_stmt P a stmt columnIndex =
     (case arithmetic_tag_t a of
        int_or_smaller_tag \<Rightarrow>
          V_integral (static_cast_integral a (sint (sqlite3_column_int P stmt columnIndex)))
      | bigint_tag \<Rightarrow>
          V_integral (static_cast_integral a (sint (sqlite3_column_int64 P stmt columnIndex)))
      | real_tag \<Rightarrow>
          V_floating (static_cast_floating P a (sqlite3_column_double P stmt columnIndex)))"

definition arithmetic_extract_value :: "'d platform \<Rightarrow> arith \<Rightarrow> 'd sqlite3_value \<Rightarrow> 'd native" where
  "arithmetic_extract_value P a v =
     (case arithmetic_tag_t a of
        int_or_smaller_tag \<Rightarrow> V_integral (static_cast_integral a (sint (sqlite3_value_int P v)))
      | bigint_tag \<Rightarrow> V_integral (static_cast_integral a (sint (sqlite3_value_int64 P v)))
      | real_tag \<Rightarrow> V_floating (static_cast_floating P a (sqlite3_value_double P v)))"

subsection \<open>Strings, wide strings, blobs and journal modes\<close>

text \<open>\<^verbatim>\<open>std::string\<close> and \<^verbatim>\<open>std::wstring\<close> built from a pointer that is not null.\<close>

definition string_of_cstr :: "cstr \<Rightarrow> 'd native" where
  "string_of_cstr p = (case p of Some m \<Rightarrow> V_string (c_str m) | None \<Rightarrow> V_string [])"

definition wstring_from_bytes :: "'d platform \<Rightarrow> cstr \<Rightarrow> error + 'd native" where
  "wstring_from_bytes P p =
     (case p of
        Some m \<Rightarrow>
          (case from_bytes P (c_str m) of
             Some w \<Rightarrow> Inr (V_wstring w)
           | None \<Rightarrow> Inl range_error)
      | None \<Rightarrow> Inr (V_wstring []))"

text \<open>
  Lines 262 and 263 cast the pointer to the engine's UTF-16 text to \<^verbatim>\<open>const wchar_t*\<close> and
  build the \<^verbatim>\<open>std::wstring\<close> from it: the constructor reads \<^verbatim>\<open>wchar_t\<close> units up to the
  first unit that is zero. The memory at the pointer is the code units of the text and the
  zero code unit after them. Where \<^verbatim>\<open>wchar_t\<close> is two bytes wide, every unit read is one
  code unit. Where it is four bytes wide, every unit read is two code units, and a unit is
  zero only when both are; a read that leaves the memory is undefined.
\<close>

fun wcs_of_units16 :: "16 word list \<Rightarrow> error + nat list" where
  "wcs_of_units16 [] = Inl undefined_behaviour"
| "wcs_of_units16 (u # us) =
     (if u = 0 then Inr [] else map_sum id ((#) (unat u)) (wcs_of_units16 us))"

fun wcs_of_units32 :: "bool \<Rightarrow> 16 word list \<Rightarrow> error + nat list" where
  "wcs_of_units32 le (u # v # us) =
     (if u = 0 \<and> v = 0 then Inr []
      else map_sum id
             ((#) (if le then unat u + 0x10000 * unat v else 0x10000 * unat u + unat v))
             (wcs_of_units32 le us))"
| "wcs_of_units32 le us = Inl undefined_behaviour"

definition wstring_of_text16 :: "'d platform \<Rightarrow> 16 word list option \<Rightarrow> error + 'd native" where
  "wstring_of_text16 P p =
     (case p of
        Some units \<Rightarrow>
          map_sum id V_wstring
            (case sizeof_wchar_t P of
               two_bytes \<Rightarrow> wcs_of_units16 (units @ [0])
             | four_bytes \<Rightarrow> wcs_of_units32 (little_endian P) (units @ [0]))
      | None \<Rightarrow> Inr (V_wstring []))"

text \<open>
  The range constructor \<^verbatim>\<open>std::vector<char>{first, first + len}\<close>: the \<open>len\<close> bytes at the
  pointer. Only the empty range of a null pointer, and a range inside the bytes a pointer
  points at, have a meaning.
\<close>

definition byte_range :: "byte list option \<Rightarrow> nat \<Rightarrow> error + 'd native" where
  "byte_range first len =
     (case first of
        None \<Rightarrow> if len = 0 then Inr (V_vector_char []) else Inl undefined_behaviour
      | Some m \<Rightarrow>
          if len \<le> length m then Inr (V_vector_char (take len m)) else Inl undefined_behaviour)"

definition journal_mode_extract_text :: "cstr \<Rightarrow> error + 'd native" where
  "journal_mode_extract_text columnText =
     (case columnText of
        Some m \<Rightarrow>
          (case journal_mode_from_string (c_str m) of
             Some res \<Rightarrow> Inr (V_journal_mode res)
           | None \<Rightarrow> Inl incorrect_journal_mode_string)
      | None \<Rightarrow> Inl incorrect_journal_mode_string)"

subsection \<open>The three overloads\<close>

fun extract_text :: "'d platform \<Rightarrow> ctype \<Rightarrow> cstr \<Rightarrow> error + 'd native" where
  "extract_text P (T_pointer_arg tag) columnText = Inl deleted_function"
| "extract_text P T_pointer_binding columnText = Inl deleted_function"
| "extract_text P (T_arithmetic a) columnText = arithmetic_extract_text P a columnText"
| "extract_text P T_string columnText = Inr (string_of_cstr columnText)"
| "extract_text P T_wstring columnText = wstring_from_bytes P columnText"
| "extract_text P (T_std_ptr k U) columnText =
     (if column_text_extractable U then
        (case columnText of
           Some m \<Rightarrow> map_sum id (\<lambda>x. V_std_ptr k (Some x)) (extract_text P U columnText)
         | None \<Rightarrow> Inr (V_std_ptr k None))
      else Inl deleted_function)"
| "extract_text P (T_optional U) columnText =
     (if column_text_extractable U then
        (case columnText of
           Some m \<Rightarrow> map_sum id (\<lambda>x. V_optional (Some x)) (extract_text P U columnText)
         | None \<Rightarrow> Inr (V_optional None))
      else Inl deleted_function)"
| "extract_text P T_nullptr columnText = Inr V_nullptr"
| "extract_text P T_vector_char columnText =
     byte_range columnText (case columnText of Some m \<Rightarrow> strlen m | None \<Rightarrow> 0)"
| "extract_text P (T_tuple Ts) columnText = Inl deleted_function"
| "extract_text P T_journal_mode columnText = journal_mode_extract_text columnText"
| "extract_text P T_unspecialized columnText = Inl deleted_function"

text \<open>
  The tuple reads its elements from the columns \<open>0, 1, ...\<close> of the statement, from left
  to right; the first element that throws ends the extraction. Its own parameter
  \<^verbatim>\<open>columnIndex\<close> has no name in the header (line 411).
\<close>

fun extract_stmt :: "'d platform \<Rightarrow> ctype \<Rightarrow> 'd sqlite3_stmt \<Rightarrow> int \<Rightarrow> error + 'd native"
  and extract_stmt_elements ::
    "'d platform \<Rightarrow> ctype list \<Rightarrow> 'd sqlite3_stmt \<Rightarrow> nat \<Rightarrow> error + 'd native list" where
  "extract_stmt P (T_pointer_arg tag) stmt columnIndex = Inl deleted_function"
| "extract_stmt P T_pointer_binding stmt columnIndex = Inl deleted_function"
| "extract_stmt P (T_arithmetic a) stmt columnIndex =
     Inr (arithmetic_extract_stmt P a stmt columnIndex)"
| "extract_stmt P T_string stmt columnIndex =
     Inr (string_of_cstr (sqlite3_column_text P stmt columnIndex))"
| "extract_stmt P T_wstring stmt columnIndex =
     wstring_from_bytes P (sqlite3_column_text P stmt columnIndex)"
| "extract_stmt P (T_std_ptr k U) stmt columnIndex =
     (if row_value_extractable U then
        (if sqlite3_column_type stmt columnIndex \<noteq> SQLITE_NULL
         then map_sum id (\<lambda>x. V_std_ptr k (Some x)) (extract_stmt P U stmt columnIndex)
         else Inr (V_std_ptr k None))
      else Inl deleted_function)"
| "extract_stmt P (T_optional U) stmt columnIndex =
     (if row_value_extractable U then
        (if sqlite3_column_type stmt columnIndex \<noteq> SQLITE_NULL
         then map_sum id (\<lambda>x. V_optional (Some x)) (extract_stmt P U stmt columnIndex)
         else Inr (V_optional None))
      else Inl deleted_function)"
| "extract_stmt P T_nullptr stmt columnIndex = Inr V_nullptr"
| "extract_stmt P T_vector_char stmt columnIndex =
     byte_range (sqlite3_column_blob P stmt columnIndex) (sqlite3_column_bytes P stmt columnIndex)"
| "extract_stmt P (T_tuple Ts) stmt columnIndex =
     (if list_all row_value_extractable Ts
      then map_sum id V_tuple (extract_stmt_elements P Ts stmt 0)
      else Inl deleted_function)"
| "extract_stmt P T_journal_mode stmt columnIndex =
     journal_mode_extract_text (sqlite3_column_text P stmt columnIndex)"
| "extract_stmt P T_unspecialized stmt columnIndex = Inl deleted_function"
| "extract_stmt_elements P [] stmt idx = Inr []"
| "extract_stmt_elements P (T # Ts) stmt idx =
     (case extract_stmt P T stmt (int idx) of
        Inl e \<Rightarrow> Inl e
      | Inr x \<Rightarrow>
          (case extract_stmt_elements P Ts stmt (Suc idx) of
             Inl e \<Rightarrow> Inl e
           | Inr xs \<Rightarrow> Inr (x # xs)))"

fun extract_value :: "'d platform \<Rightarrow> ctype \<Rightarrow> 'd sqlite3_value \<Rightarrow> error + 'd native" where
  "extract_value P (T_pointer_arg tag) v = Inr (V_pointer_arg (sqlite3_value_pointer v tag))"
| "extract_value P T_pointer_binding v = Inl deleted_function"
| "extract_value P (T_arithmetic a) v = Inr (arithmetic_extract_value P a v)"
| "extract_value P T_string v = Inr (string_of_cstr (sqlite3_value_text P v))"
| "extract_value P T_wstring v = wstring_of_text16 P (sqlite3_value_text16 P v)"
| "extract_value P (T_std_ptr k U) v =
     (if boxed_value_extractable U then
        (if sqlite3_value_type v \<noteq> SQLITE_NULL
         then map_sum id (\<lambda>x. V_std_ptr k (Some x)) (extract_value P U v)
         else Inr (V_std_ptr k None))
      else Inl deleted_function)"
| "extract_value P (T_optional U) v =
     (if boxed_value_extractable U then
        (if sqlite3_value_type v \<noteq> SQLITE_NULL
         then map_sum id (\<lambda>x. V_optional (Some x)) (extract_value P U v)
         else Inr (V_optional None))
      else Inl deleted_function)"
| "extract_value P T_nullptr v = Inr V_nullptr"
| "extract_value P T_vector_char v =
     byte_range (sqlite3_value_blob P v) (sqlite3_value_bytes P v)"
| "extract_value P (T_tuple Ts) v = Inl deleted_function"
| "extract_value P T_journal_mode v = Inl deleted_function"
| "extract_value P T_unspecialized v = Inl deleted_function"

text \<open>
  The tuple's overload for one-step execution (line 407) reads element \<open>i\<close> from
  \<^verbatim>\<open>argv[i]\<close>. The header does not receive the length of \<^verbatim>\<open>argv\<close>: reading after its end
  is undefined.
\<close>

fun extract_argv_elements ::
  "'d platform \<Rightarrow> ctype list \<Rightarrow> cstr list \<Rightarrow> nat \<Rightarrow> error + 'd native list" where
  "extract_argv_elements P [] argv idx = Inr []"
| "extract_argv_elements P (T # Ts) argv idx =
     (if idx < length argv then
        (case extract_text P T (argv ! idx) of
           Inl e \<Rightarrow> Inl e
         | Inr x \<Rightarrow>
             (case extract_argv_elements P Ts argv (Suc idx) of
                Inl e \<Rightarrow> Inl e
              | Inr xs \<Rightarrow> Inr (x # xs)))
      else Inl undefined_behaviour)"

definition extract_argv :: "'d platform \<Rightarrow> ctype list \<Rightarrow> cstr list \<Rightarrow> error + 'd native" where
  "extract_argv P Ts argv =
     (if argv_extractable Ts
      then map_sum id V_tuple (extract_argv_elements P Ts argv 0)
      else Inl deleted_function)"

subsection \<open>A platform for closed examples\<close>

text \<open>
  The examples below are closed terms, so they name one platform. Its
  \<open>from_bytes\<close> is a strict decoder of UTF-8 that writes UTF-16 code units: it fails on
  a byte that cannot start a sequence, on a missing or wrong continuation byte, on an
  overlong form, on a surrogate and on a code point above \<open>0x10FFFF\<close>. Its floating-point
  values are not told apart (the type \<open>unit\<close>): the examples hold no such value. The
  engine's conversion of text to an integer reads the longest integer prefix and stays
  inside 64 bits. Its \<^verbatim>\<open>wchar_t\<close> is four bytes wide and its byte order is little-endian,
  as on Linux on x86-64.
\<close>

definition utf8_cont :: "nat \<Rightarrow> bool" where
  "utf8_cont b \<longleftrightarrow> (0x80 \<le> b \<and> b < 0xC0)"

fun utf8_code_points :: "nat list \<Rightarrow> nat list option" where
  "utf8_code_points [] = Some []"
| "utf8_code_points (b # bs) =
     (if b < 0x80 then map_option ((#) b) (utf8_code_points bs)
      else if 0xC2 \<le> b \<and> b < 0xE0 then
        (case bs of
           c1 # r \<Rightarrow>
             if utf8_cont c1
             then map_option ((#) ((b - 0xC0) * 0x40 + (c1 - 0x80))) (utf8_code_points r)
             else None
         | _ \<Rightarrow> None)
      else if 0xE0 \<le> b \<and> b < 0xF0 then
        (case bs of
           c1 # c2 # r \<Rightarrow>
             (let cp = (b - 0xE0) * 0x1000 + (c1 - 0x80) * 0x40 + (c2 - 0x80)
              in if utf8_cont c1 \<and> utf8_cont c2 \<and> 0x800 \<le> cp \<and> (cp < 0xD800 \<or> 0xE000 \<le> cp)
                 then map_option ((#) cp) (utf8_code_points r)
                 else None)
         | _ \<Rightarrow> None)
      else if 0xF0 \<le> b \<and> b < 0xF5 then
        (case bs of
           c1 # c2 # c3 # r \<Rightarrow>
             (let cp = (b - 0xF0) * 0x40000 + (c1 - 0x80) * 0x1000 + (c2 - 0x80) * 0x40 + (c3 - 0x80)
              in if utf8_cont c1 \<and> utf8_cont c2 \<and> utf8_cont c3 \<and> 0x10000 \<le> cp \<and> cp < 0x110000
                 then map_option ((#) cp) (utf8_code_points r)
                 else None)
         | _ \<Rightarrow> None)
      else None)"

definition utf16_units :: "nat \<Rightarrow> nat list" where
  "utf16_units cp =
     (if cp < 0x10000 then [cp]
      else [0xD800 + (cp - 0x10000) div 0x400, 0xDC00 + (cp - 0x10000) mod 0x400])"

definition utf8_to_utf16 :: "byte list \<Rightarrow> nat list option" where
  "utf8_to_utf16 s = map_option (\<lambda>cps. concat (map utf16_units cps)) (utf8_code_points (map unat s))"

definition clamp_int64 :: "int \<Rightarrow> 64 word" where
  "clamp_int64 x = word_of_int (max (- (2 ^ 63)) (min (2 ^ 63 - 1) x))"

definition reference_platform :: "unit platform" where
  "reference_platform =
     \<lparr> double_of_int = (\<lambda>i. ()),
       strtod_other = (\<lambda>s. ()),
       static_cast_floating = (\<lambda>a d. ()),
       double_zero = (),
       double_to_int64 = (\<lambda>d. 0),
       double_to_text = (\<lambda>d. []),
       text_to_int64 = (\<lambda>t. clamp_int64 (strtol10 t)),
       text_to_double = (\<lambda>t. ()),
       from_bytes = utf8_to_utf16,
       text16 = (\<lambda>t. case utf8_to_utf16 t of Some w \<Rightarrow> map of_nat w | None \<Rightarrow> [0xFFFD]),
       sizeof_wchar_t = four_bytes,
       little_endian = True \<rparr>"

subsection \<open>Notions of the statements\<close>

text \<open>
  Whether a native value holds a pointer of the pointer-passing interface, at any depth
  of smart pointers, optionals and tuples.
\<close>

fun holds_pointer_arg :: "'d native \<Rightarrow> bool" where
  "holds_pointer_arg (V_pointer_arg p) = True"
| "holds_pointer_arg (V_std_ptr k r) = (case r of None \<Rightarrow> False | Some x \<Rightarrow> holds_pointer_arg x)"
| "holds_pointer_arg (V_optional r) = (case r of None \<Rightarrow> False | Some x \<Rightarrow> holds_pointer_arg x)"
| "holds_pointer_arg (V_tuple xs) = list_ex holds_pointer_arg xs"
| "holds_pointer_arg x = False"

text \<open>
  The smart pointer that holds what an optional holds: empty for \<^verbatim>\<open>std::nullopt\<close>,
  owning the value otherwise.
\<close>

fun optional_as_std_ptr :: "std_ptr \<Rightarrow> 'd native \<Rightarrow> 'd native" where
  "optional_as_std_ptr k (V_optional r) = V_std_ptr k r"
| "optional_as_std_ptr k x = x"

text \<open>
  The numeric zero of an arithmetic type: the integer \<open>0\<close> (\<^verbatim>\<open>false\<close> for \<^verbatim>\<open>bool\<close>), and
  the engine's \<open>0.0\<close> cast to a floating-point type.
\<close>

definition numeric_zero :: "'d platform \<Rightarrow> arith \<Rightarrow> 'd native" where
  "numeric_zero P a =
     (case a of
        cxx_floating n \<Rightarrow> V_floating (static_cast_floating P a (double_zero P))
      | _ \<Rightarrow> V_integral 0)"

text \<open>
  The three paths on one datum \<open>d\<close>, which is a column of the row \<open>pre @ d # post\<close>: the
  text of the column as the callback receives it, the column of the statement, and the
  datum as a boxed value. The paths agree when the first two give what the third gives,
  value or failure.
\<close>

definition paths_agree ::
  "'d platform \<Rightarrow> ctype \<Rightarrow> 'd sqlite3_stmt \<Rightarrow> 'd sqlite3_value \<Rightarrow> 'd sqlite3_stmt \<Rightarrow> bool" where
  "paths_agree P T pre d post =
     (extract_text P T (callback_argv P (pre @ d # post) ! length pre) = extract_value P T d \<and>
      extract_stmt P T (pre @ d # post) (int (length pre)) = extract_value P T d)"

section \<open>Auxiliary facts\<close>

subsection \<open>Results that are sums\<close>

lemma map_sum_id_eq_Inr: "map_sum id f s = Inr x \<longleftrightarrow> (\<exists>y. s = Inr y \<and> x = f y)"
  by (cases s) auto

lemma map_sum_id_eq_Inl: "map_sum id f s = Inl e \<longleftrightarrow> s = Inl e"
  by (cases s) auto

subsection \<open>The engine's accessors\<close>

lemma column_value_append: "column_value (pre @ d # post) (int (length pre)) = d"
  by (simp add: column_value_def)

lemma callback_argv_nth: "callback_argv P (pre @ d # post) ! length pre = sqlite3_value_text P d"
  by (simp add: callback_argv_def nth_append)

lemma value_type_NULL_iff:
  "sqlite3_value_type v = SQLITE_NULL \<longleftrightarrow> sqlite3_value_text P v = None"
  by (cases v)
    (simp_all add: SQLITE_NULL_def SQLITE_INTEGER_def SQLITE_FLOAT_def SQLITE_TEXT_def
      SQLITE_BLOB_def)

lemma value_type_NULL_numbers:
  assumes "sqlite3_value_type v = SQLITE_NULL"
  shows "sqlite3_value_int64 P v = 0" and "sqlite3_value_int P v = 0"
    and "sqlite3_value_double P v = double_zero P"
  using assms
  by (cases v; simp add: sqlite3_value_int_def SQLITE_NULL_def SQLITE_INTEGER_def
      SQLITE_FLOAT_def SQLITE_TEXT_def SQLITE_BLOB_def)+

lemma value_blob_bytes:
  "byte_range (sqlite3_value_blob P v) (sqlite3_value_bytes P v) =
     Inr (V_vector_char (case sqlite3_value_text P v of None \<Rightarrow> [] | Some m \<Rightarrow> m))"
  by (auto simp: byte_range_def sqlite3_value_blob_def sqlite3_value_bytes_def
      split: option.splits)

lemma sint_ucast_int32:
  fixes i :: "64 word"
  assumes "- (2 ^ 31) \<le> sint i" "sint i < 2 ^ 31"
  shows "sint (ucast i :: 32 word) = sint i"
proof -
  have "sint (ucast i :: 32 word) = signed_take_bit 31 (uint i)"
    by (simp add: signed_ucast_eq)
  also have "\<dots> = signed_take_bit 31 (sint i)"
    by (simp add: sint_uint)
  also have "\<dots> = sint i"
    using assms by (simp add: signed_take_bit_int_eq_self)
  finally show ?thesis .
qed

subsection \<open>No pointer of the pointer-passing interface comes from text or from a column\<close>

lemma extract_text_no_pointer_arg:
  "extract_text P T columnText = Inr x \<Longrightarrow> \<not> holds_pointer_arg x"
proof (induction T arbitrary: x)
  case (T_arithmetic a)
  then show ?case
    by (auto simp: arithmetic_extract_text_def map_sum_id_eq_Inr split: arithmetic_tag.splits)
next
  case T_wstring
  then show ?case by (auto simp: wstring_from_bytes_def split: option.splits)
next
  case (T_std_ptr k U)
  then show ?case by (auto simp: map_sum_id_eq_Inr split: if_splits option.splits)
next
  case (T_optional U)
  then show ?case by (auto simp: map_sum_id_eq_Inr split: if_splits option.splits)
next
  case T_vector_char
  then show ?case by (auto simp: byte_range_def split: option.splits if_splits)
next
  case T_journal_mode
  then show ?case by (auto simp: journal_mode_extract_text_def split: option.splits)
qed (auto simp: string_of_cstr_def split: option.splits)

lemma extract_stmt_no_pointer_arg:
  "extract_stmt P T stmt columnIndex = Inr x \<Longrightarrow> \<not> holds_pointer_arg x"
  "extract_stmt_elements P Ts stmt idx = Inr xs \<Longrightarrow> \<not> list_ex holds_pointer_arg xs"
proof (induction P T stmt columnIndex and P Ts stmt idx arbitrary: x and xs
    rule: extract_stmt_extract_stmt_elements.induct)
  case (3 P a stmt columnIndex)
  then show ?case by (auto simp: arithmetic_extract_stmt_def split: arithmetic_tag.splits)
next
  case (5 P stmt columnIndex)
  then show ?case by (auto simp: wstring_from_bytes_def split: option.splits)
next
  case (6 P k U stmt columnIndex)
  then show ?case by (auto simp: map_sum_id_eq_Inr split: if_splits)
next
  case (7 P U stmt columnIndex)
  then show ?case by (auto simp: map_sum_id_eq_Inr split: if_splits)
next
  case (9 P stmt columnIndex)
  then show ?case by (auto simp: byte_range_def split: option.splits if_splits)
next
  case (10 P Ts stmt columnIndex)
  then show ?case by (auto simp: map_sum_id_eq_Inr split: if_splits)
next
  case (11 P stmt columnIndex)
  then show ?case by (auto simp: journal_mode_extract_text_def split: option.splits)
next
  case (14 P T Ts stmt idx)
  then show ?case by (auto split: sum.splits)
qed (auto simp: string_of_cstr_def split: option.splits)

lemma extract_argv_elements_no_pointer_arg:
  "extract_argv_elements P Ts argv idx = Inr xs \<Longrightarrow> \<not> list_ex holds_pointer_arg xs"
proof (induction Ts arbitrary: idx xs)
  case Nil
  then show ?case by simp
next
  case (Cons T Ts)
  then show ?case
    by (auto split: if_splits sum.splits dest: extract_text_no_pointer_arg)
qed

subsection \<open>The elements of a tuple\<close>

lemma extract_stmt_elements_Inr:
  "extract_stmt_elements P Ts stmt k = Inr xs \<longleftrightarrow>
     length xs = length Ts \<and>
     (\<forall>i<length Ts. extract_stmt P (Ts ! i) stmt (int (k + i)) = Inr (xs ! i))"
proof (induction Ts arbitrary: k xs)
  case Nil
  then show ?case by auto
next
  case (Cons T Ts)
  show ?case
  proof (cases xs)
    case Nil
    then show ?thesis by (auto split: sum.splits)
  next
    case (Cons y ys)
    then show ?thesis
      using Cons.IH [of "Suc k" ys]
      by (auto simp: All_less_Suc2 ac_simps split: sum.splits)
  qed
qed

lemma extract_argv_elements_Inr:
  "extract_argv_elements P Ts argv k = Inr xs \<longleftrightarrow>
     length xs = length Ts \<and>
     (\<forall>i<length Ts.
        k + i < length argv \<and> extract_text P (Ts ! i) (argv ! (k + i)) = Inr (xs ! i))"
proof (induction Ts arbitrary: k xs)
  case Nil
  then show ?case by auto
next
  case (Cons T Ts)
  show ?case
  proof (cases xs)
    case Nil
    then show ?thesis by (auto split: sum.splits)
  next
    case (Cons y ys)
    then show ?thesis
      using Cons.IH [of "Suc k" ys]
      by (auto simp: All_less_Suc2 ac_simps split: sum.splits)
  qed
qed

subsection \<open>Journal modes\<close>

lemma journal_mode_from_string_Some:
  "journal_mode_from_string str = Some j \<longleftrightarrow> map toupper str = to_string j"
  by (cases j) (auto simp: journal_mode_from_string_def bytes_of_def split: if_splits)

subsection \<open>Printing an integer and reading it back\<close>

lemma digit_cases:
  "d < 10 \<Longrightarrow>
     d = 0 \<or> d = 1 \<or> d = 2 \<or> d = 3 \<or> d = 4 \<or> d = 5 \<or> d = 6 \<or> d = 7 \<or> d = 8 \<or> d = (9::nat)"
  by arith

lemma digit_char_props:
  assumes "d < 10"
  shows "isdigit (digit_char d)" and "uint (digit_char d) - 0x30 = int d"
    and "digit_char d \<noteq> 0" and "\<not> isspace (digit_char d)"
    and "digit_char d \<noteq> 0x2D" and "digit_char d \<noteq> 0x2B"
  using digit_cases [OF assms]
  by (auto simp: digit_char_def isdigit_def isspace_def)

lemma nat_digits_set: "c \<in> set (nat_digits n) \<Longrightarrow> \<exists>d<10. c = digit_char d"
proof (induction n rule: nat_digits.induct)
  case (1 n)
  show ?case
  proof (cases "n < 10")
    case True
    with "1.prems" show ?thesis by (auto simp: nat_digits.simps [of n])
  next
    case False
    with "1.prems" have "c \<in> set (nat_digits (n div 10)) \<or> c = digit_char (n mod 10)"
      by (auto simp: nat_digits.simps [of n])
    then show ?thesis
    proof
      assume "c \<in> set (nat_digits (n div 10))"
      with "1.IH" False show ?thesis by blast
    next
      assume "c = digit_char (n mod 10)"
      moreover have "n mod 10 < 10" by simp
      ultimately show ?thesis by blast
    qed
  qed
qed

lemma nat_digits_not_Nil: "nat_digits n \<noteq> []"
  by (subst nat_digits.simps) simp

lemma digits_value_nat_digits:
  "digits_value acc (nat_digits n @ rest) =
     digits_value (acc * 10 ^ length (nat_digits n) + int n) rest"
proof (induction n arbitrary: acc rest rule: nat_digits.induct)
  case (1 n)
  show ?case
  proof (cases "n < 10")
    case True
    then show ?thesis
      by (simp add: nat_digits.simps [of n] digit_char_props)
  next
    case False
    have m: "n mod 10 < 10" by simp
    have "digits_value acc (nat_digits n @ rest) =
          digits_value acc (nat_digits (n div 10) @ (digit_char (n mod 10) # rest))"
      using False by (simp add: nat_digits.simps [of n])
    also have "\<dots> = digits_value (acc * 10 ^ length (nat_digits (n div 10)) + int (n div 10))
                      (digit_char (n mod 10) # rest)"
      using "1.IH" [OF False] by simp
    also have "\<dots> = digits_value
        ((acc * 10 ^ length (nat_digits (n div 10)) + int (n div 10)) * 10 + int (n mod 10)) rest"
      using digit_char_props(1,2) [OF m] by simp
    also have "(acc * 10 ^ length (nat_digits (n div 10)) + int (n div 10)) * 10 + int (n mod 10) =
        acc * 10 ^ length (nat_digits n) + int n"
    proof -
      have "int (n div 10) * 10 + int (n mod 10) = int n"
        by (metis mult.commute of_nat_add of_nat_mult of_nat_numeral div_mult_mod_eq mult_div_mod_eq)
      moreover have "length (nat_digits n) = Suc (length (nat_digits (n div 10)))"
        using False by (simp add: nat_digits.simps [of n])
      ultimately show ?thesis by (simp add: algebra_simps)
    qed
    finally show ?thesis .
  qed
qed

lemma digits_value_nat_digits_0: "digits_value 0 (nat_digits n) = int n"
  using digits_value_nat_digits [of 0 n "[]"] by simp

lemma c_str_nat_digits: "c_str (nat_digits n) = nat_digits n"
  unfolding c_str_def
  by (rule takeWhile_eq_all_conv [THEN iffD2]) (auto dest!: nat_digits_set simp: digit_char_props)

lemma c_str_decimal: "c_str (decimal x) = decimal x"
  using c_str_nat_digits by (simp add: decimal_def c_str_def)

lemma strtol10_decimal: "strtol10 (decimal x) = x"
proof (cases "x < 0")
  case True
  then show ?thesis
    by (simp add: strtol10_def decimal_def isspace_def digits_value_nat_digits_0)
next
  case False
  obtain c cs where cs: "nat_digits (nat x) = c # cs"
    using nat_digits_not_Nil [of "nat x"] by (cases "nat_digits (nat x)") auto
  then have "c \<in> set (nat_digits (nat x))" by simp
  then obtain d where d: "d < 10" "c = digit_char d"
    using nat_digits_set by blast
  have "digits_value 0 (c # cs) = int (nat x)"
    using digits_value_nat_digits_0 [of "nat x"] cs by simp
  with False cs d show ?thesis
    by (simp add: strtol10_def decimal_def digit_char_props del: digits_value.simps)
qed

lemma decimal_42: "decimal 42 = bytes_of ''42''"
  by (simp add: decimal_def nat_digits.simps [of 42] nat_digits.simps [of 4] digit_char_def
      bytes_of_def)

subsection \<open>The arithmetic specialisation\<close>

lemma not_real_tag_cases:
  assumes "arithmetic_tag_t a \<noteq> real_tag"
  shows "a = cxx_bool \<or> (\<exists>sg n. a = cxx_integral sg n)"
  using assms by (cases a) (simp_all add: arithmetic_tag_t_def)

lemma not_real_tag_zero:
  assumes "arithmetic_tag_t a \<noteq> real_tag"
  shows "static_cast_integral a 0 = 0" and "numeric_zero P a = V_integral 0"
  using not_real_tag_cases [OF assms]
  by (auto simp: static_cast_integral_def numeric_zero_def)

lemma real_tag_zero:
  assumes "arithmetic_tag_t a = real_tag"
  shows "numeric_zero P a = V_floating (static_cast_floating P a (double_zero P))"
  using assms by (cases a) (simp_all add: arithmetic_tag_t_def numeric_zero_def split: if_splits)

lemma static_cast_integral_42:
  assumes "0 < n"
  shows "static_cast_integral (cxx_integral sg n) 42 = 42"
proof -
  have "(7::nat) \<le> 8 * n - 1" "(8::nat) \<le> 8 * n" using assms by simp_all
  then have "(2::int) ^ 7 \<le> 2 ^ (8 * n - 1)" "(2::int) ^ 8 \<le> 2 ^ (8 * n)"
    by (simp_all only: power_increasing_iff one_less_numeral_iff semiring_norm)
  then have "signed_take_bit (8 * n - 1) (42::int) = 42" "take_bit (8 * n) (42::int) = 42"
    by (simp_all add: signed_take_bit_int_eq_self take_bit_int_eq_self)
  then show ?thesis by (simp add: static_cast_integral_def)
qed

lemma arithmetic_stmt_column_value:
  "arithmetic_extract_stmt P a stmt columnIndex =
     arithmetic_extract_value P a (column_value stmt columnIndex)"
  by (simp add: arithmetic_extract_stmt_def arithmetic_extract_value_def sqlite3_column_int_def
      sqlite3_column_int64_def sqlite3_column_double_def split: arithmetic_tag.split)

lemma arithmetic_value_NULL:
  assumes "sqlite3_value_type v = SQLITE_NULL"
  shows "arithmetic_extract_value P a v = numeric_zero P a"
proof (cases "arithmetic_tag_t a")
  case int_or_smaller_tag
  then show ?thesis
    using value_type_NULL_numbers [OF assms, of P]
      not_real_tag_zero(1) [of a] not_real_tag_zero(2) [of a P]
    by (simp add: arithmetic_extract_value_def)
next
  case bigint_tag
  then show ?thesis
    using value_type_NULL_numbers [OF assms, of P]
      not_real_tag_zero(1) [of a] not_real_tag_zero(2) [of a P]
    by (simp add: arithmetic_extract_value_def)
next
  case real_tag
  then show ?thesis
    using value_type_NULL_numbers [OF assms, of P] real_tag_zero [of a P]
    by (simp add: arithmetic_extract_value_def)
qed

lemma integral_text_of_INTEGER:
  assumes "arithmetic_tag_t a = bigint_tag \<or>
           arithmetic_tag_t a = int_or_smaller_tag \<and> - (2 ^ 31) \<le> sint i \<and> sint i < 2 ^ 31"
  shows "extract_text P (T_arithmetic a) (sqlite3_value_text P (SQL_INTEGER i)) =
           Inr (arithmetic_extract_value P a (SQL_INTEGER i))"
proof -
  have r: "- (2 ^ 63) \<le> sint i" "sint i < 2 ^ 63"
    using sint_range_size [of i] by (simp_all add: word_size)
  from assms show ?thesis
  proof
    assume "arithmetic_tag_t a = bigint_tag"
    with r show ?thesis
      by (simp add: arithmetic_extract_text_def arithmetic_extract_value_def atoll_def
          c_str_decimal strtol10_decimal)
  next
    assume "arithmetic_tag_t a = int_or_smaller_tag \<and> - (2 ^ 31) \<le> sint i \<and> sint i < 2 ^ 31"
    then show ?thesis
      by (simp add: arithmetic_extract_text_def arithmetic_extract_value_def atoi_def
          c_str_decimal strtol10_decimal sqlite3_value_int_def sint_ucast_int32)
  qed
qed

lemma list_all_isdigit_nat_digits: "list_all isdigit (nat_digits n)"
  unfolding list_all_iff using nat_digits_set digit_char_props(1) by blast

lemma decimal_integer_decimal: "decimal_integer (decimal x)"
proof (cases "x < 0")
  case True
  then show ?thesis
    by (simp add: decimal_integer_def decimal_def isspace_def nat_digits_not_Nil
        list_all_isdigit_nat_digits digits_value_nat_digits_0)
next
  case False
  obtain c cs where cs: "nat_digits (nat x) = c # cs"
    using nat_digits_not_Nil [of "nat x"] by (cases "nat_digits (nat x)") auto
  then have "c \<in> set (nat_digits (nat x))" by simp
  then obtain d where d: "d < 10" "c = digit_char d"
    using nat_digits_set by blast
  have "list_all isdigit cs"
    using list_all_isdigit_nat_digits [of "nat x"] cs by simp
  with False cs d show ?thesis
    by (simp add: decimal_integer_def decimal_def digit_char_props)
qed

lemma strtod_decimal: "strtod P (decimal x) = double_of_int P x"
  by (simp add: strtod_def decimal_integer_decimal strtol10_decimal)

subsection \<open>Wide strings from the engine's UTF-16 text\<close>

lemma wcs_of_units16_terminated:
  "wcs_of_units16 (units @ [0]) = Inr (map unat (takeWhile (\<lambda>u. u \<noteq> 0) units))"
  by (induction units) simp_all

subsection \<open>Which results are compile-time errors\<close>

lemma extract_text_deleted_iff:
  "extract_text P T columnText = Inl deleted_function \<longleftrightarrow> \<not> column_text_extractable T"
proof (induction T)
  case (T_arithmetic a)
  then show ?case
    by (auto simp: arithmetic_extract_text_def map_sum_id_eq_Inl atoi_def atoll_def atof_def Let_def
        split: arithmetic_tag.splits option.splits if_splits)
next
  case T_wstring
  then show ?case by (auto simp: wstring_from_bytes_def split: option.splits)
next
  case (T_std_ptr k U)
  then show ?case by (auto simp: map_sum_id_eq_Inl split: option.splits)
next
  case (T_optional U)
  then show ?case by (auto simp: map_sum_id_eq_Inl split: option.splits)
next
  case T_vector_char
  then show ?case by (auto simp: byte_range_def split: option.splits if_splits)
next
  case T_journal_mode
  then show ?case by (auto simp: journal_mode_extract_text_def split: option.splits)
qed simp_all

lemma extract_stmt_deleted_iff:
  "extract_stmt P T stmt columnIndex = Inl deleted_function \<longleftrightarrow> \<not> row_value_extractable T"
  "list_all row_value_extractable Ts \<Longrightarrow>
     extract_stmt_elements P Ts stmt idx \<noteq> Inl deleted_function"
proof (induction P T stmt columnIndex and P Ts stmt idx
    rule: extract_stmt_extract_stmt_elements.induct)
  case (5 P stmt columnIndex)
  then show ?case by (auto simp: wstring_from_bytes_def split: option.splits)
next
  case (6 P k U stmt columnIndex)
  then show ?case by (auto simp: map_sum_id_eq_Inl)
next
  case (7 P U stmt columnIndex)
  then show ?case by (auto simp: map_sum_id_eq_Inl)
next
  case (9 P stmt columnIndex)
  then show ?case by (auto simp: byte_range_def split: option.splits if_splits)
next
  case (10 P Ts stmt columnIndex)
  then show ?case by (auto simp: map_sum_id_eq_Inl)
next
  case (11 P stmt columnIndex)
  then show ?case by (auto simp: journal_mode_extract_text_def split: option.splits)
next
  case (14 P T Ts stmt idx)
  then show ?case by (auto split: sum.splits)
qed simp_all

lemma wstring_of_text16_not_deleted: "wstring_of_text16 P p \<noteq> Inl deleted_function"
proof (cases p)
  case None
  then show ?thesis by (simp add: wstring_of_text16_def)
next
  case (Some units)
  have 1: "wcs_of_units16 us \<noteq> Inl deleted_function" for us
    by (induction us) (auto simp: map_sum_id_eq_Inl)
  have 2: "wcs_of_units32 le us \<noteq> Inl deleted_function" for le us
    by (induction le us rule: wcs_of_units32.induct) (auto simp: map_sum_id_eq_Inl)
  from Some 1 2 show ?thesis
    by (auto simp: wstring_of_text16_def map_sum_id_eq_Inl split: wchar_size.splits)
qed

lemma extract_value_deleted_iff:
  "extract_value P T v = Inl deleted_function \<longleftrightarrow> \<not> boxed_value_extractable T"
proof (induction T)
  case T_wstring
  then show ?case by (simp add: wstring_of_text16_not_deleted)
next
  case (T_std_ptr k U)
  then show ?case by (auto simp: map_sum_id_eq_Inl)
next
  case (T_optional U)
  then show ?case by (auto simp: map_sum_id_eq_Inl)
next
  case T_vector_char
  then show ?case by (simp add: value_blob_bytes)
qed simp_all

subsection \<open>Wrappers keep the agreement of the three paths\<close>

lemma column_type_append:
  "sqlite3_column_type (pre @ d # post) (int (length pre)) = sqlite3_value_type d"
  by (simp add: sqlite3_column_type_def column_value_append)

lemma paths_agree_extractable:
  assumes "paths_agree P U pre d post"
  shows "column_text_extractable U \<longleftrightarrow> boxed_value_extractable U"
    and "row_value_extractable U \<longleftrightarrow> boxed_value_extractable U"
proof -
  from assms have
    t: "extract_text P U (sqlite3_value_text P d) = extract_value P U d" and
    s: "extract_stmt P U (pre @ d # post) (int (length pre)) = extract_value P U d"
    by (simp_all add: paths_agree_def callback_argv_nth)
  show "column_text_extractable U \<longleftrightarrow> boxed_value_extractable U"
    using t extract_text_deleted_iff [of P U "sqlite3_value_text P d"]
      extract_value_deleted_iff [of P U d]
    by auto
  show "row_value_extractable U \<longleftrightarrow> boxed_value_extractable U"
    using s extract_stmt_deleted_iff(1) [of P U "pre @ d # post" "int (length pre)"]
      extract_value_deleted_iff [of P U d]
    by auto
qed

lemma paths_agree_wrappers:
  assumes "paths_agree P U pre d post"
  shows "paths_agree P (T_optional U) pre d post" and "paths_agree P (T_std_ptr k U) pre d post"
proof -
  from assms have
    t: "extract_text P U (sqlite3_value_text P d) = extract_value P U d" and
    s: "extract_stmt P U (pre @ d # post) (int (length pre)) = extract_value P U d"
    by (simp_all add: paths_agree_def callback_argv_nth)
  note e = paths_agree_extractable [OF assms]
  have n: "sqlite3_value_type d \<noteq> SQLITE_NULL \<longleftrightarrow> sqlite3_value_text P d \<noteq> None"
    by (simp add: value_type_NULL_iff [of d P])
  show "paths_agree P (T_optional U) pre d post"
    using t s e n
    by (cases "sqlite3_value_text P d")
      (simp_all add: paths_agree_def callback_argv_nth column_type_append)
  show "paths_agree P (T_std_ptr k U) pre d post"
    using t s e n
    by (cases "sqlite3_value_text P d")
      (simp_all add: paths_agree_def callback_argv_nth column_type_append)
qed

section \<open>The claims\<close>

subsection \<open>C1: the three paths on one datum\<close>

text \<open>
  C1, as amended. One datum \<open>d\<close> of the engine reaches the three paths as the text
  \<^verbatim>\<open>argv[i]\<close> of its column, as the column of the statement and as the boxed value.
  \<^item> For \<^verbatim>\<open>std::string\<close> and for \<^verbatim>\<open>nullptr_t\<close> the three paths agree on every datum.
  \<^item> Where the three paths agree for a type \<open>U\<close> on a datum, they agree on that datum
    for \<^verbatim>\<open>std::optional<U>\<close>, \<^verbatim>\<open>std::unique_ptr<U>\<close> and \<^verbatim>\<open>std::shared_ptr<U>\<close>.
  \<^item> For every arithmetic type the column path and the boxed-value path agree on every
    datum.
  \<^item> For every integral type the three paths agree on every INTEGER datum that the C
    type read by \<^verbatim>\<open>atoi\<close> or \<^verbatim>\<open>atoll\<close> can hold (32 bits for the types no larger than
    \<^verbatim>\<open>int\<close>, 64 bits for the larger ones), and for every floating-point type on every
    INTEGER datum: the value is the datum cast to the type.
  \<^item> In particular the integer 42, whose text is \<^verbatim>\<open>"42"\<close>, is decoded to
    \<^verbatim>\<open>static_cast<T>(42)\<close> on all three paths, for every arithmetic type \<^verbatim>\<open>T\<close>; that is
    42 for every integral type but \<^verbatim>\<open>bool\<close>, and \<^verbatim>\<open>true\<close> for \<^verbatim>\<open>bool\<close>.
  \<^item> For \<^verbatim>\<open>std::vector<char>\<close> the column path and the boxed-value path agree on every
    datum, and the column-text path agrees with them exactly when the bytes of the datum
    hold no NUL byte.
  \<^item> For \<^verbatim>\<open>std::wstring\<close> and for \<^verbatim>\<open>journal_mode\<close> the column-text path and the column
    path agree on every datum.
\<close>

theorem decode_paths_agree:
  "paths_agree P T_string pre d post \<and>
   paths_agree P T_nullptr pre d post \<and>
   (paths_agree P U pre d post \<longrightarrow>
      paths_agree P (T_optional U) pre d post \<and> paths_agree P (T_std_ptr k U) pre d post) \<and>
   extract_stmt P (T_arithmetic a) (pre @ d # post) (int (length pre)) =
     extract_value P (T_arithmetic a) d \<and>
   (arithmetic_tag_t a = bigint_tag \<or>
    arithmetic_tag_t a = int_or_smaller_tag \<and> - (2 ^ 31) \<le> sint i \<and> sint i < 2 ^ 31 \<longrightarrow>
      paths_agree P (T_arithmetic a) pre (SQL_INTEGER i) post \<and>
      extract_value P (T_arithmetic a) (SQL_INTEGER i) =
        Inr (V_integral (static_cast_integral a (sint i)))) \<and>
   paths_agree P (T_arithmetic (cxx_floating w)) pre (SQL_INTEGER i) post \<and>
   extract_value P (T_arithmetic (cxx_floating w)) (SQL_INTEGER i) =
     Inr (V_floating (static_cast_floating P (cxx_floating w) (double_of_int P (sint i)))) \<and>
   callback_argv P (pre @ SQL_INTEGER 42 # post) ! length pre = Some (bytes_of ''42'') \<and>
   (arithmetic_tag_t a \<noteq> real_tag \<longrightarrow>
      extract_text P (T_arithmetic a) (Some (bytes_of ''42'')) =
        Inr (V_integral (static_cast_integral a 42)) \<and>
      extract_stmt P (T_arithmetic a) (pre @ SQL_INTEGER 42 # post) (int (length pre)) =
        Inr (V_integral (static_cast_integral a 42)) \<and>
      extract_value P (T_arithmetic a) (SQL_INTEGER 42) =
        Inr (V_integral (static_cast_integral a 42))) \<and>
   (0 < n \<longrightarrow> static_cast_integral (cxx_integral sg n) 42 = 42) \<and>
   static_cast_integral cxx_bool 42 = 1 \<and>
   extract_text P (T_arithmetic (cxx_floating w)) (Some (bytes_of ''42'')) =
     Inr (V_floating (static_cast_floating P (cxx_floating w) (double_of_int P 42))) \<and>
   extract_stmt P (T_arithmetic (cxx_floating w)) (pre @ SQL_INTEGER 42 # post) (int (length pre)) =
     Inr (V_floating (static_cast_floating P (cxx_floating w) (double_of_int P 42))) \<and>
   extract_value P (T_arithmetic (cxx_floating w)) (SQL_INTEGER 42) =
     Inr (V_floating (static_cast_floating P (cxx_floating w) (double_of_int P 42))) \<and>
   extract_stmt P T_vector_char (pre @ d # post) (int (length pre)) =
     extract_value P T_vector_char d \<and>
   (paths_agree P T_vector_char pre d post \<longleftrightarrow>
    0 \<notin> set (case sqlite3_value_text P d of None \<Rightarrow> [] | Some m \<Rightarrow> m)) \<and>
   extract_text P T_wstring (callback_argv P (pre @ d # post) ! length pre) =
     extract_stmt P T_wstring (pre @ d # post) (int (length pre)) \<and>
   extract_text P T_journal_mode (callback_argv P (pre @ d # post) ! length pre) =
     extract_stmt P T_journal_mode (pre @ d # post) (int (length pre))"
proof -
  have sv: "extract_stmt P (T_arithmetic b) (pre @ x # post) (int (length pre)) =
      extract_value P (T_arithmetic b) x" for b x
    by (simp add: arithmetic_stmt_column_value column_value_append)
  have val: "arithmetic_tag_t a \<noteq> real_tag \<Longrightarrow>
      - (2 ^ 31) \<le> sint j \<Longrightarrow> sint j < 2 ^ 31 \<Longrightarrow>
      arithmetic_extract_value P a (SQL_INTEGER j) = V_integral (static_cast_integral a (sint j))"
    for j
    by (cases "arithmetic_tag_t a")
      (simp_all add: arithmetic_extract_value_def sqlite3_value_int_def sint_ucast_int32)
  have big: "arithmetic_tag_t a = bigint_tag \<Longrightarrow>
      arithmetic_extract_value P a (SQL_INTEGER i) = V_integral (static_cast_integral a (sint i))"
    by (simp add: arithmetic_extract_value_def)
  have 1: "paths_agree P T_string pre d post" "paths_agree P T_nullptr pre d post"
    by (simp_all add: paths_agree_def callback_argv_nth sqlite3_column_text_def
        column_value_append)
  have 2: "paths_agree P U pre d post \<longrightarrow>
      paths_agree P (T_optional U) pre d post \<and> paths_agree P (T_std_ptr k U) pre d post"
    using paths_agree_wrappers(1) [of P U pre d post] paths_agree_wrappers(2) [of P U pre d post k]
    by blast
  have 3: "arithmetic_tag_t a = bigint_tag \<or>
      arithmetic_tag_t a = int_or_smaller_tag \<and> - (2 ^ 31) \<le> sint i \<and> sint i < 2 ^ 31 \<longrightarrow>
      paths_agree P (T_arithmetic a) pre (SQL_INTEGER i) post \<and>
      extract_value P (T_arithmetic a) (SQL_INTEGER i) =
        Inr (V_integral (static_cast_integral a (sint i)))"
  proof
    assume h: "arithmetic_tag_t a = bigint_tag \<or>
      arithmetic_tag_t a = int_or_smaller_tag \<and> - (2 ^ 31) \<le> sint i \<and> sint i < 2 ^ 31"
    then have v: "arithmetic_extract_value P a (SQL_INTEGER i) =
        V_integral (static_cast_integral a (sint i))"
      using val [of i] big by auto
    from integral_text_of_INTEGER [OF h, of P] v sv [of a "SQL_INTEGER i"]
    show "paths_agree P (T_arithmetic a) pre (SQL_INTEGER i) post \<and>
      extract_value P (T_arithmetic a) (SQL_INTEGER i) =
        Inr (V_integral (static_cast_integral a (sint i)))"
      by (simp add: paths_agree_def callback_argv_nth)
  qed
  have fv: "extract_value P (T_arithmetic (cxx_floating w)) (SQL_INTEGER j) =
     Inr (V_floating (static_cast_floating P (cxx_floating w) (double_of_int P (sint j))))" for j
    by (simp add: arithmetic_extract_value_def arithmetic_tag_t_def)
  have ft: "extract_text P (T_arithmetic (cxx_floating w)) (Some (decimal (sint j))) =
     Inr (V_floating (static_cast_floating P (cxx_floating w) (double_of_int P (sint j))))"
    for j :: "64 word"
    by (simp add: arithmetic_extract_text_def arithmetic_tag_t_def atof_def c_str_decimal
        strtod_decimal)
  have 4: "paths_agree P (T_arithmetic (cxx_floating w)) pre (SQL_INTEGER i) post"
    using fv [of i] ft [of i] sv [of "cxx_floating w" "SQL_INTEGER i"]
    by (simp add: paths_agree_def callback_argv_nth)
  have 5: "callback_argv P (pre @ SQL_INTEGER 42 # post) ! length pre = Some (bytes_of ''42'')"
    by (simp add: callback_argv_nth decimal_42)
  have 6: "arithmetic_tag_t a \<noteq> real_tag \<longrightarrow>
      extract_text P (T_arithmetic a) (Some (bytes_of ''42'')) =
        Inr (V_integral (static_cast_integral a 42)) \<and>
      extract_stmt P (T_arithmetic a) (pre @ SQL_INTEGER 42 # post) (int (length pre)) =
        Inr (V_integral (static_cast_integral a 42)) \<and>
      extract_value P (T_arithmetic a) (SQL_INTEGER 42) =
        Inr (V_integral (static_cast_integral a 42))"
  proof
    assume h: "arithmetic_tag_t a \<noteq> real_tag"
    then have t: "arithmetic_tag_t a = bigint_tag \<or>
        arithmetic_tag_t a = int_or_smaller_tag \<and>
        - (2 ^ 31) \<le> sint (42 :: 64 word) \<and> sint (42 :: 64 word) < 2 ^ 31"
      by (cases "arithmetic_tag_t a") simp_all
    have v: "arithmetic_extract_value P a (SQL_INTEGER 42) = V_integral (static_cast_integral a 42)"
      using val [of 42] h by simp
    from integral_text_of_INTEGER [OF t, of P] v sv [of a "SQL_INTEGER 42"]
    show "extract_text P (T_arithmetic a) (Some (bytes_of ''42'')) =
        Inr (V_integral (static_cast_integral a 42)) \<and>
      extract_stmt P (T_arithmetic a) (pre @ SQL_INTEGER 42 # post) (int (length pre)) =
        Inr (V_integral (static_cast_integral a 42)) \<and>
      extract_value P (T_arithmetic a) (SQL_INTEGER 42) =
        Inr (V_integral (static_cast_integral a 42))"
      by (simp add: decimal_42)
  qed
  have 7: "0 < n \<longrightarrow> static_cast_integral (cxx_integral sg n) 42 = 42"
    "static_cast_integral cxx_bool 42 = 1"
    by (simp_all add: static_cast_integral_42) (simp add: static_cast_integral_def)
  have 8: "extract_text P (T_arithmetic (cxx_floating w)) (Some (bytes_of ''42'')) =
     Inr (V_floating (static_cast_floating P (cxx_floating w) (double_of_int P 42)))"
    "extract_stmt P (T_arithmetic (cxx_floating w)) (pre @ SQL_INTEGER 42 # post) (int (length pre)) =
     Inr (V_floating (static_cast_floating P (cxx_floating w) (double_of_int P 42)))"
    "extract_value P (T_arithmetic (cxx_floating w)) (SQL_INTEGER 42) =
     Inr (V_floating (static_cast_floating P (cxx_floating w) (double_of_int P 42)))"
    using fv [of 42] ft [of 42] sv [of "cxx_floating w" "SQL_INTEGER 42"]
    by (simp_all add: decimal_42)
  have 9: "extract_stmt P T_vector_char (pre @ d # post) (int (length pre)) =
      extract_value P T_vector_char d"
    by (simp add: sqlite3_column_blob_def sqlite3_column_bytes_def column_value_append)
  have 10: "paths_agree P T_vector_char pre d post \<longleftrightarrow>
    0 \<notin> set (case sqlite3_value_text P d of None \<Rightarrow> [] | Some m \<Rightarrow> m)"
  proof -
    have r: "extract_value P T_vector_char d =
        Inr (V_vector_char (case sqlite3_value_text P d of None \<Rightarrow> [] | Some m \<Rightarrow> m))"
      by (simp add: value_blob_bytes)
    have l: "extract_text P T_vector_char (sqlite3_value_text P d) =
        Inr (V_vector_char
          (case sqlite3_value_text P d of None \<Rightarrow> [] | Some m \<Rightarrow> takeWhile (\<lambda>c. c \<noteq> 0) m))"
      by (cases "sqlite3_value_text P d")
        (simp_all add: byte_range_def strlen_def c_str_def length_takeWhile_le
          takeWhile_eq_take [symmetric])
    have "extract_text P T_vector_char (sqlite3_value_text P d) = extract_value P T_vector_char d
      \<longleftrightarrow> 0 \<notin> set (case sqlite3_value_text P d of None \<Rightarrow> [] | Some m \<Rightarrow> m)"
      unfolding r l
      by (cases "sqlite3_value_text P d") (auto simp: takeWhile_eq_all_conv)
    with 9 show ?thesis
      by (simp add: paths_agree_def callback_argv_nth)
  qed
  have 11: "extract_text P T_wstring (callback_argv P (pre @ d # post) ! length pre) =
      extract_stmt P T_wstring (pre @ d # post) (int (length pre))"
    "extract_text P T_journal_mode (callback_argv P (pre @ d # post) ! length pre) =
      extract_stmt P T_journal_mode (pre @ d # post) (int (length pre))"
    by (simp_all add: callback_argv_nth sqlite3_column_text_def column_value_append)
  from 1 2 sv [of a d] 3 4 fv [of i] 5 6 7 8 9 10 11 show ?thesis by blast
qed

theorem decode_paths_agree_witness:
  "paths_agree reference_platform T_string [] (SQL_TEXT (bytes_of ''ab'')) [] \<and>
   paths_agree reference_platform (T_optional T_string) [] (SQL_TEXT (bytes_of ''ab'')) [] \<and>
   paths_agree reference_platform (T_std_ptr unique_ptr T_string) [] (SQL_TEXT (bytes_of ''ab'')) [] \<and>
   extract_value reference_platform (T_optional T_string) (SQL_TEXT (bytes_of ''ab'')) =
     Inr (V_optional (Some (V_string (bytes_of ''ab'')))) \<and>
   arithmetic_tag_t (cxx_integral True 4) = int_or_smaller_tag \<and>
   - (2 ^ 31) \<le> sint (42 :: 64 word) \<and> sint (42 :: 64 word) < 2 ^ 31 \<and>
   extract_text reference_platform (T_arithmetic (cxx_integral True 4))
     (callback_argv reference_platform [SQL_INTEGER 42] ! 0) = Inr (V_integral 42) \<and>
   extract_stmt reference_platform (T_arithmetic (cxx_integral True 4)) [SQL_INTEGER 42] 0 =
     Inr (V_integral 42) \<and>
   extract_value reference_platform (T_arithmetic (cxx_integral True 4)) (SQL_INTEGER 42) =
     Inr (V_integral 42) \<and>
   arithmetic_tag_t (cxx_integral False 1) \<noteq> real_tag \<and>
   (0 :: nat) < 1 \<and>
   extract_text reference_platform (T_arithmetic (cxx_integral False 1)) (Some (bytes_of ''42'')) =
     Inr (V_integral 42)"
proof -
  have h: "arithmetic_tag_t (cxx_integral True 4) = int_or_smaller_tag"
    "- (2 ^ 31) \<le> sint (42 :: 64 word)" "sint (42 :: 64 word) < 2 ^ 31"
    "arithmetic_tag_t (cxx_integral False 1) \<noteq> real_tag" "(0 :: nat) < 1"
    by (simp_all add: arithmetic_tag_t_def)
  have c: "static_cast_integral (cxx_integral True 4) (sint (42 :: 64 word)) = 42"
    by (simp add: static_cast_integral_def)
  have v: "extract_value reference_platform (T_optional T_string) (SQL_TEXT (bytes_of ''ab'')) =
     Inr (V_optional (Some (V_string (bytes_of ''ab''))))"
    by (simp add: string_of_cstr_def c_str_def bytes_of_def SQLITE_NULL_def SQLITE_TEXT_def)
  note w = decode_paths_agree
    [where P = reference_platform and U = T_string and k = unique_ptr
      and d = "SQL_TEXT (bytes_of ''ab'')" and pre = "[]" and post = "[]"]
  from w have 0: "paths_agree reference_platform T_string [] (SQL_TEXT (bytes_of ''ab'')) []"
    by blast
  from w 0 have 1:
    "paths_agree reference_platform (T_optional T_string) [] (SQL_TEXT (bytes_of ''ab'')) [] \<and>
     paths_agree reference_platform (T_std_ptr unique_ptr T_string) [] (SQL_TEXT (bytes_of ''ab'')) []"
    by blast
  from decode_paths_agree
    [where P = reference_platform and a = "cxx_integral True 4" and i = 42
      and pre = "[]" and post = "[]"] h(1,2,3) c
  have 2: "extract_text reference_platform (T_arithmetic (cxx_integral True 4))
     (callback_argv reference_platform [SQL_INTEGER 42] ! 0) = Inr (V_integral 42) \<and>
   extract_stmt reference_platform (T_arithmetic (cxx_integral True 4)) [SQL_INTEGER 42] 0 =
     Inr (V_integral 42) \<and>
   extract_value reference_platform (T_arithmetic (cxx_integral True 4)) (SQL_INTEGER 42) =
     Inr (V_integral 42)"
    by (simp add: paths_agree_def)
  from decode_paths_agree
    [where P = reference_platform and a = "cxx_integral False 1" and n = 1 and sg = False] h(4,5)
  have 3: "extract_text reference_platform (T_arithmetic (cxx_integral False 1))
      (Some (bytes_of ''42'')) = Inr (V_integral 42)"
    by simp
  from h v 0 1 2 3 show ?thesis by blast
qed

text \<open>
  The claim as it was stated fails for \<^verbatim>\<open>std::vector<char>\<close>: a blob of the three bytes
  \<open>0x61, 0x00, 0x62\<close> is decoded to one byte from its column text and to three bytes from
  the column and from the boxed value.
\<close>

theorem decode_paths_disagree_counterexample:
  "extract_text reference_platform T_vector_char
     (callback_argv reference_platform [SQL_BLOB [0x61, 0x00, 0x62]] ! 0) =
     Inr (V_vector_char [0x61]) \<and>
   extract_stmt reference_platform T_vector_char [SQL_BLOB [0x61, 0x00, 0x62]] 0 =
     Inr (V_vector_char [0x61, 0x00, 0x62]) \<and>
   extract_value reference_platform T_vector_char (SQL_BLOB [0x61, 0x00, 0x62]) =
     Inr (V_vector_char [0x61, 0x00, 0x62])"
  by (simp add: callback_argv_def byte_range_def strlen_def c_str_def sqlite3_column_blob_def
      sqlite3_column_bytes_def sqlite3_value_blob_def sqlite3_value_bytes_def column_value_def)

subsection \<open>C2: NULL and the arithmetic types\<close>

text \<open>
  C2, as amended. The arithmetic codec has no case for NULL. On the column path and on
  the boxed-value path a NULL value is decoded to the numeric zero of the type, for every
  arithmetic type, because the engine's accessors return \<open>0\<close> and \<open>0.0\<close> for NULL. On the
  column-text path the null pointer is handed to \<^verbatim>\<open>atoi\<close>, \<^verbatim>\<open>atoll\<close> or \<^verbatim>\<open>atof\<close>, which
  is undefined behaviour and not the value zero; the empty string is decoded to zero by
  every integral type.
\<close>

theorem arithmetic_null_is_zero_on_column_and_boxed_value:
  "(sqlite3_column_type stmt columnIndex = SQLITE_NULL \<longrightarrow>
      extract_stmt P (T_arithmetic a) stmt columnIndex = Inr (numeric_zero P a)) \<and>
   (sqlite3_value_type v = SQLITE_NULL \<longrightarrow>
      extract_value P (T_arithmetic a) v = Inr (numeric_zero P a)) \<and>
   extract_text P (T_arithmetic a) None = Inl undefined_behaviour \<and>
   (arithmetic_tag_t a \<noteq> real_tag \<longrightarrow>
      extract_text P (T_arithmetic a) (Some []) = Inr (numeric_zero P a))"
proof -
  have s: "sqlite3_column_type stmt columnIndex = SQLITE_NULL \<longrightarrow>
      extract_stmt P (T_arithmetic a) stmt columnIndex = Inr (numeric_zero P a)"
    by (simp add: arithmetic_stmt_column_value sqlite3_column_type_def arithmetic_value_NULL)
  have b: "sqlite3_value_type v = SQLITE_NULL \<longrightarrow>
      extract_value P (T_arithmetic a) v = Inr (numeric_zero P a)"
    by (simp add: arithmetic_value_NULL)
  have t: "extract_text P (T_arithmetic a) None = Inl undefined_behaviour"
    by (simp add: arithmetic_extract_text_def atoi_def atoll_def atof_def
        split: arithmetic_tag.split)
  have e: "arithmetic_tag_t a \<noteq> real_tag \<longrightarrow>
      extract_text P (T_arithmetic a) (Some []) = Inr (numeric_zero P a)"
    by (auto simp: arithmetic_extract_text_def atoi_def atoll_def strtol10_def c_str_def
        not_real_tag_zero split: arithmetic_tag.split)
  from s b t e show ?thesis by blast
qed

theorem arithmetic_null_is_zero_on_column_and_boxed_value_witness:
  "sqlite3_column_type [SQL_NULL :: unit sqlite3_value] 0 = SQLITE_NULL \<and>
   extract_stmt reference_platform (T_arithmetic (cxx_integral True 4)) [SQL_NULL] 0 =
     Inr (V_integral 0) \<and>
   sqlite3_value_type (SQL_NULL :: unit sqlite3_value) = SQLITE_NULL \<and>
   extract_value reference_platform (T_arithmetic (cxx_integral False 8)) SQL_NULL =
     Inr (V_integral 0) \<and>
   arithmetic_tag_t cxx_bool \<noteq> real_tag \<and>
   extract_text reference_platform (T_arithmetic cxx_bool) (Some []) = Inr (V_integral 0)"
proof -
  have h1: "sqlite3_column_type [SQL_NULL :: unit sqlite3_value] 0 = SQLITE_NULL"
    by (simp add: sqlite3_column_type_def column_value_def)
  have h2: "sqlite3_value_type (SQL_NULL :: unit sqlite3_value) = SQLITE_NULL"
    by simp
  have h3: "arithmetic_tag_t cxx_bool \<noteq> real_tag"
    by (simp add: arithmetic_tag_t_def)
  from h1 arithmetic_null_is_zero_on_column_and_boxed_value
    [of "[SQL_NULL]" 0 reference_platform "cxx_integral True 4"]
  have 1: "extract_stmt reference_platform (T_arithmetic (cxx_integral True 4)) [SQL_NULL] 0 =
     Inr (V_integral 0)"
    by (simp add: numeric_zero_def)
  from h2 arithmetic_null_is_zero_on_column_and_boxed_value
    [of _ _ reference_platform "cxx_integral False 8" SQL_NULL]
  have 2: "extract_value reference_platform (T_arithmetic (cxx_integral False 8)) SQL_NULL =
     Inr (V_integral 0)"
    by (simp add: numeric_zero_def)
  from h3 arithmetic_null_is_zero_on_column_and_boxed_value
    [of _ _ reference_platform cxx_bool]
  have 3: "extract_text reference_platform (T_arithmetic cxx_bool) (Some []) = Inr (V_integral 0)"
    by (simp add: numeric_zero_def)
  from h1 h2 h3 1 2 3 show ?thesis by blast
qed

text \<open>
  The claim as it was stated fails on the column-text path: for \<^verbatim>\<open>int\<close> and the null
  pointer the result is undefined behaviour, not the value zero.
\<close>

theorem arithmetic_text_null_counterexample:
  "extract_text reference_platform (T_arithmetic (cxx_integral True 4)) None =
     Inl undefined_behaviour \<and>
   extract_text reference_platform (T_arithmetic (cxx_integral True 4)) None \<noteq>
     Inr (numeric_zero reference_platform (cxx_integral True 4))"
  by (simp add: arithmetic_extract_text_def arithmetic_tag_t_def atoi_def)

subsection \<open>C3: the pointer-passing interface\<close>

text \<open>
  C3. For every type \<^verbatim>\<open>pointer_arg<P, T>\<close>, decoding is possible only from a boxed
  dynamic value: the overloads for column text and for a column of a statement are
  deleted, so a call of either does not compile, and the overload for a boxed value
  returns the pointer that the engine holds under the type string \<^verbatim>\<open>T::value\<close>.
  Nothing is returned silently: whatever the type asked for, no value that comes from
  column text, from a column of a statement or from \<^verbatim>\<open>argv\<close> holds such a pointer.
\<close>

theorem pointer_arg_only_from_boxed_value:
  "extract_text P (T_pointer_arg tag) columnText = Inl deleted_function \<and>
   extract_stmt P (T_pointer_arg tag) stmt columnIndex = Inl deleted_function \<and>
   extract_value P (T_pointer_arg tag) v = Inr (V_pointer_arg (sqlite3_value_pointer v tag)) \<and>
   (extract_text P T columnText = Inr x \<longrightarrow> \<not> holds_pointer_arg x) \<and>
   (extract_stmt P T stmt columnIndex = Inr x \<longrightarrow> \<not> holds_pointer_arg x) \<and>
   (extract_argv P Ts argv = Inr x \<longrightarrow> \<not> holds_pointer_arg x)"
proof -
  have "extract_argv P Ts argv = Inr x \<longrightarrow> \<not> holds_pointer_arg x"
    by (auto simp: extract_argv_def map_sum_id_eq_Inr split: if_splits
        dest: extract_argv_elements_no_pointer_arg)
  then show ?thesis
    using extract_text_no_pointer_arg [of P T columnText x]
      extract_stmt_no_pointer_arg(1) [of P T stmt columnIndex x]
    by simp
qed

theorem pointer_arg_only_from_boxed_value_witness:
  "extract_text reference_platform (T_optional T_string) (Some (bytes_of ''a'')) =
     Inr (V_optional (Some (V_string (bytes_of ''a'')))) \<and>
   \<not> holds_pointer_arg (V_optional (Some (V_string (bytes_of ''a''))) :: unit native) \<and>
   extract_stmt reference_platform (T_optional T_string) [SQL_TEXT (bytes_of ''a'')] 0 =
     Inr (V_optional (Some (V_string (bytes_of ''a'')))) \<and>
   extract_argv reference_platform [T_optional T_string] [Some (bytes_of ''a'')] =
     Inr (V_tuple [V_optional (Some (V_string (bytes_of ''a'')))]) \<and>
   \<not> holds_pointer_arg (V_tuple [V_optional (Some (V_string (bytes_of ''a'')))] :: unit native) \<and>
   extract_value reference_platform (T_pointer_arg ''carray'') (SQL_POINTER 4096 ''carray'') =
     Inr (V_pointer_arg (Some 4096))"
proof -
  have h1: "extract_text reference_platform (T_optional T_string) (Some (bytes_of ''a'')) =
     Inr (V_optional (Some (V_string (bytes_of ''a''))))"
    by (simp add: string_of_cstr_def c_str_def bytes_of_def)
  have h2: "extract_stmt reference_platform (T_optional T_string) [SQL_TEXT (bytes_of ''a'')] 0 =
     Inr (V_optional (Some (V_string (bytes_of ''a''))))"
    by (simp add: string_of_cstr_def c_str_def bytes_of_def sqlite3_column_type_def
        sqlite3_column_text_def column_value_def SQLITE_NULL_def SQLITE_TEXT_def)
  have h3: "extract_argv reference_platform [T_optional T_string] [Some (bytes_of ''a'')] =
     Inr (V_tuple [V_optional (Some (V_string (bytes_of ''a'')))])"
    by (simp add: extract_argv_def argv_extractable_def string_of_cstr_def c_str_def bytes_of_def)
  note inst = pointer_arg_only_from_boxed_value
    [where P = reference_platform and T = "T_optional T_string"
      and columnText = "Some (bytes_of ''a'')"
      and stmt = "[SQL_TEXT (bytes_of ''a'')]" and columnIndex = 0
      and Ts = "[T_optional T_string]" and argv = "[Some (bytes_of ''a'')]"
      and tag = "''carray''" and v = "SQL_POINTER 4096 ''carray''"]
  from inst [where x = "V_optional (Some (V_string (bytes_of ''a'')))"] h1
  have 1: "\<not> holds_pointer_arg (V_optional (Some (V_string (bytes_of ''a''))) :: unit native)"
    by blast
  from inst [where x = "V_optional (Some (V_string (bytes_of ''a'')))"] h2
  have 4: "\<not> holds_pointer_arg (V_optional (Some (V_string (bytes_of ''a''))) :: unit native)"
    by blast
  from inst [where x = "V_tuple [V_optional (Some (V_string (bytes_of ''a'')))]"] h3
  have 2: "\<not> holds_pointer_arg (V_tuple [V_optional (Some (V_string (bytes_of ''a'')))] :: unit native)"
    by blast
  from inst [where x = V_nullptr]
  have 3: "extract_value reference_platform (T_pointer_arg ''carray'') (SQL_POINTER 4096 ''carray'') =
     Inr (V_pointer_arg (Some 4096))"
    by simp
  from h1 h2 h3 1 2 3 4 show ?thesis by blast
qed

subsection \<open>C4: the journal mode\<close>

text \<open>
  C4. The journal-mode decoder returns the mode \<open>WAL\<close> for the text \<^verbatim>\<open>"wal"\<close>. For the
  text \<^verbatim>\<open>"bogus"\<close> and for the null pointer it throws the system error
  \<open>incorrect_journal_mode_string\<close>. It never returns a default: it returns a mode only
  for a text that, in upper case, is the name of that mode, and every other text and the
  null pointer end in that error. From a statement it decodes the text of the column, so
  a NULL column ends in the error too.
\<close>

theorem journal_mode_decoder:
  "extract_text P T_journal_mode (Some (bytes_of ''wal'')) = Inr (V_journal_mode WAL) \<and>
   extract_text P T_journal_mode (Some (bytes_of ''bogus'')) = Inl incorrect_journal_mode_string \<and>
   extract_text P T_journal_mode None = Inl incorrect_journal_mode_string \<and>
   (extract_text P T_journal_mode columnText = Inr x \<longleftrightarrow>
      (\<exists>m j. columnText = Some m \<and> map toupper (c_str m) = to_string j \<and> x = V_journal_mode j)) \<and>
   (extract_text P T_journal_mode columnText = Inl e \<longleftrightarrow>
      e = incorrect_journal_mode_string \<and>
      (columnText = None \<or>
       (\<exists>m. columnText = Some m \<and> journal_mode_from_string (c_str m) = None))) \<and>
   extract_stmt P T_journal_mode stmt columnIndex =
     extract_text P T_journal_mode (sqlite3_column_text P stmt columnIndex) \<and>
   extract_stmt P T_journal_mode (pre @ SQL_NULL # post) (int (length pre)) =
     Inl incorrect_journal_mode_string"
proof -
  have 1: "extract_text P T_journal_mode (Some (bytes_of ''wal'')) = Inr (V_journal_mode WAL)"
    by (simp add: journal_mode_extract_text_def journal_mode_from_string_def c_str_def
        bytes_of_def toupper_def)
  have 2: "extract_text P T_journal_mode (Some (bytes_of ''bogus'')) =
      Inl incorrect_journal_mode_string"
    by (simp add: journal_mode_extract_text_def journal_mode_from_string_def c_str_def
        bytes_of_def toupper_def)
  have 3: "extract_text P T_journal_mode None = Inl incorrect_journal_mode_string"
    by (simp add: journal_mode_extract_text_def)
  have 4: "extract_text P T_journal_mode columnText = Inr x \<longleftrightarrow>
      (\<exists>m j. columnText = Some m \<and> map toupper (c_str m) = to_string j \<and> x = V_journal_mode j)"
    by (auto simp: journal_mode_extract_text_def journal_mode_from_string_Some [symmetric]
        split: option.splits)
  have 5: "extract_text P T_journal_mode columnText = Inl e \<longleftrightarrow>
      e = incorrect_journal_mode_string \<and>
      (columnText = None \<or>
       (\<exists>m. columnText = Some m \<and> journal_mode_from_string (c_str m) = None))"
    by (auto simp: journal_mode_extract_text_def split: option.splits)
  have 6: "extract_stmt P T_journal_mode stmt columnIndex =
     extract_text P T_journal_mode (sqlite3_column_text P stmt columnIndex)"
    by simp
  have 7: "extract_stmt P T_journal_mode (pre @ SQL_NULL # post) (int (length pre)) =
     Inl incorrect_journal_mode_string"
    by (simp add: sqlite3_column_text_def column_value_append journal_mode_extract_text_def)
  from 1 2 3 4 5 6 7 show ?thesis by blast
qed

subsection \<open>C5: optionals\<close>

text \<open>
  C5. For every wrapped type \<open>T\<close> that the path can decode, the decoder of
  \<^verbatim>\<open>std::optional<T>\<close> returns the absent optional exactly when the underlying value is
  NULL (the null pointer for column text, the type \<^verbatim>\<open>SQLITE_NULL\<close> for a column and for
  a boxed value). When the value is not NULL it returns the optional that holds \<open>x\<close>
  exactly when the decoder of \<open>T\<close> returns \<open>x\<close> for the same value, and fails exactly when
  the decoder of \<open>T\<close> fails, with the same error.
\<close>

theorem optional_absent_iff_null:
  "(column_text_extractable T \<longrightarrow>
      (extract_text P (T_optional T) columnText = Inr (V_optional None) \<longleftrightarrow> columnText = None) \<and>
      (columnText \<noteq> None \<longrightarrow>
         (extract_text P (T_optional T) columnText = Inr (V_optional (Some x)) \<longleftrightarrow>
            extract_text P T columnText = Inr x) \<and>
         (extract_text P (T_optional T) columnText = Inl e \<longleftrightarrow>
            extract_text P T columnText = Inl e))) \<and>
   (row_value_extractable T \<longrightarrow>
      (extract_stmt P (T_optional T) stmt columnIndex = Inr (V_optional None) \<longleftrightarrow>
         sqlite3_column_type stmt columnIndex = SQLITE_NULL) \<and>
      (sqlite3_column_type stmt columnIndex \<noteq> SQLITE_NULL \<longrightarrow>
         (extract_stmt P (T_optional T) stmt columnIndex = Inr (V_optional (Some x)) \<longleftrightarrow>
            extract_stmt P T stmt columnIndex = Inr x) \<and>
         (extract_stmt P (T_optional T) stmt columnIndex = Inl e \<longleftrightarrow>
            extract_stmt P T stmt columnIndex = Inl e))) \<and>
   (boxed_value_extractable T \<longrightarrow>
      (extract_value P (T_optional T) v = Inr (V_optional None) \<longleftrightarrow>
         sqlite3_value_type v = SQLITE_NULL) \<and>
      (sqlite3_value_type v \<noteq> SQLITE_NULL \<longrightarrow>
         (extract_value P (T_optional T) v = Inr (V_optional (Some x)) \<longleftrightarrow>
            extract_value P T v = Inr x) \<and>
         (extract_value P (T_optional T) v = Inl e \<longleftrightarrow> extract_value P T v = Inl e)))"
proof -
  have t: "column_text_extractable T \<longrightarrow>
      (extract_text P (T_optional T) columnText = Inr (V_optional None) \<longleftrightarrow> columnText = None) \<and>
      (columnText \<noteq> None \<longrightarrow>
         (extract_text P (T_optional T) columnText = Inr (V_optional (Some x)) \<longleftrightarrow>
            extract_text P T columnText = Inr x) \<and>
         (extract_text P (T_optional T) columnText = Inl e \<longleftrightarrow>
            extract_text P T columnText = Inl e))"
    by (auto simp: map_sum_id_eq_Inr map_sum_id_eq_Inl split: option.splits)
  have s: "row_value_extractable T \<longrightarrow>
      (extract_stmt P (T_optional T) stmt columnIndex = Inr (V_optional None) \<longleftrightarrow>
         sqlite3_column_type stmt columnIndex = SQLITE_NULL) \<and>
      (sqlite3_column_type stmt columnIndex \<noteq> SQLITE_NULL \<longrightarrow>
         (extract_stmt P (T_optional T) stmt columnIndex = Inr (V_optional (Some x)) \<longleftrightarrow>
            extract_stmt P T stmt columnIndex = Inr x) \<and>
         (extract_stmt P (T_optional T) stmt columnIndex = Inl e \<longleftrightarrow>
            extract_stmt P T stmt columnIndex = Inl e))"
    by (auto simp: map_sum_id_eq_Inr map_sum_id_eq_Inl)
  have b: "boxed_value_extractable T \<longrightarrow>
      (extract_value P (T_optional T) v = Inr (V_optional None) \<longleftrightarrow>
         sqlite3_value_type v = SQLITE_NULL) \<and>
      (sqlite3_value_type v \<noteq> SQLITE_NULL \<longrightarrow>
         (extract_value P (T_optional T) v = Inr (V_optional (Some x)) \<longleftrightarrow>
            extract_value P T v = Inr x) \<and>
         (extract_value P (T_optional T) v = Inl e \<longleftrightarrow> extract_value P T v = Inl e))"
    by (auto simp: map_sum_id_eq_Inr map_sum_id_eq_Inl)
  from t s b show ?thesis by blast
qed

theorem optional_absent_iff_null_witness:
  "column_text_extractable T_string \<and>
   extract_text reference_platform (T_optional T_string) None = Inr (V_optional None) \<and>
   Some (bytes_of ''a'') \<noteq> (None :: cstr) \<and>
   extract_text reference_platform (T_optional T_string) (Some (bytes_of ''a'')) =
     Inr (V_optional (Some (V_string (bytes_of ''a'')))) \<and>
   row_value_extractable T_string \<and>
   sqlite3_column_type [SQL_TEXT (bytes_of ''a'') :: unit sqlite3_value] 0 \<noteq> SQLITE_NULL \<and>
   extract_stmt reference_platform (T_optional T_string) [SQL_TEXT (bytes_of ''a'')] 0 =
     Inr (V_optional (Some (V_string (bytes_of ''a'')))) \<and>
   boxed_value_extractable T_string \<and>
   sqlite3_value_type (SQL_NULL :: unit sqlite3_value) = SQLITE_NULL \<and>
   extract_value reference_platform (T_optional T_string) SQL_NULL = Inr (V_optional None) \<and>
   sqlite3_value_type (SQL_TEXT (bytes_of ''a'') :: unit sqlite3_value) \<noteq> SQLITE_NULL \<and>
   extract_value reference_platform (T_optional T_string) (SQL_TEXT (bytes_of ''a'')) =
     Inr (V_optional (Some (V_string (bytes_of ''a''))))"
proof -
  have h: "column_text_extractable T_string" "row_value_extractable T_string"
    "boxed_value_extractable T_string"
    by simp_all
  have n: "Some (bytes_of ''a'') \<noteq> (None :: cstr)"
    "sqlite3_column_type [SQL_TEXT (bytes_of ''a'') :: unit sqlite3_value] 0 \<noteq> SQLITE_NULL"
    "sqlite3_value_type (SQL_NULL :: unit sqlite3_value) = SQLITE_NULL"
    "sqlite3_value_type (SQL_TEXT (bytes_of ''a'') :: unit sqlite3_value) \<noteq> SQLITE_NULL"
    by (simp_all add: sqlite3_column_type_def column_value_def SQLITE_NULL_def SQLITE_TEXT_def)
  have x: "extract_text reference_platform T_string (Some (bytes_of ''a'')) =
      Inr (V_string (bytes_of ''a''))"
    "extract_stmt reference_platform T_string [SQL_TEXT (bytes_of ''a'')] 0 =
      Inr (V_string (bytes_of ''a''))"
    "extract_value reference_platform T_string (SQL_TEXT (bytes_of ''a'')) =
      Inr (V_string (bytes_of ''a''))"
    by (simp_all add: string_of_cstr_def sqlite3_column_text_def column_value_def c_str_def
        bytes_of_def)
  note inst = optional_absent_iff_null
    [where P = reference_platform and T = T_string
      and stmt = "[SQL_TEXT (bytes_of ''a'')]" and columnIndex = 0
      and x = "V_string (bytes_of ''a'')"]
  from inst [where columnText = None] h(1) have 1:
    "extract_text reference_platform (T_optional T_string) None = Inr (V_optional None)"
    by blast
  from inst [where columnText = "Some (bytes_of ''a'')"] h(1) n(1) x(1) have 2:
    "extract_text reference_platform (T_optional T_string) (Some (bytes_of ''a'')) =
     Inr (V_optional (Some (V_string (bytes_of ''a''))))"
    by blast
  from inst h(2) n(2) x(2) have 3:
    "extract_stmt reference_platform (T_optional T_string) [SQL_TEXT (bytes_of ''a'')] 0 =
     Inr (V_optional (Some (V_string (bytes_of ''a''))))"
    by blast
  from inst [where v = SQL_NULL] h(3) n(3) have 4:
    "extract_value reference_platform (T_optional T_string) SQL_NULL = Inr (V_optional None)"
    by blast
  from inst [where v = "SQL_TEXT (bytes_of ''a'')"] h(3) n(4) x(3) have 5:
    "extract_value reference_platform (T_optional T_string) (SQL_TEXT (bytes_of ''a'')) =
     Inr (V_optional (Some (V_string (bytes_of ''a''))))"
    by blast
  from h n 1 2 3 4 5 show ?thesis by blast
qed

subsection \<open>C6: tuples are read by position\<close>

text \<open>
  C6. Tuple decoding is positional. From a statement, a tuple of the types \<open>Ts\<close> is
  decoded to the values \<open>xs\<close> exactly when every element \<open>i\<close> is decoded, by the
  extractor of its own type \<open>Ts ! i\<close>, from column \<open>i\<close> to \<open>xs ! i\<close>; in callback mode,
  exactly when every element \<open>i\<close> is decoded from \<^verbatim>\<open>argv[i]\<close> to \<open>xs ! i\<close>. The names of the
  columns are no input of either overload. For a tuple of three types and a row of three
  columns, column 0 gives the first element, column 1 the second, column 2 the third.
\<close>

theorem tuple_is_positional:
  "(extract_stmt P (T_tuple Ts) stmt columnIndex = Inr (V_tuple xs) \<longleftrightarrow>
      list_all row_value_extractable Ts \<and> length xs = length Ts \<and>
      (\<forall>i<length Ts. extract_stmt P (Ts ! i) stmt (int i) = Inr (xs ! i))) \<and>
   (extract_argv P Ts argv = Inr (V_tuple xs) \<longleftrightarrow>
      argv_extractable Ts \<and> length xs = length Ts \<and>
      (\<forall>i<length Ts. i < length argv \<and> extract_text P (Ts ! i) (argv ! i) = Inr (xs ! i)))"
  by (auto simp: extract_argv_def map_sum_id_eq_Inr extract_stmt_elements_Inr
      extract_argv_elements_Inr)

theorem tuple_is_positional_witness:
  "extract_stmt reference_platform
     (T_tuple [T_arithmetic (cxx_integral True 4), T_string, T_optional T_string])
     [SQL_INTEGER 7, SQL_TEXT (bytes_of ''ab''), SQL_NULL] 0 =
     Inr (V_tuple [V_integral 7, V_string (bytes_of ''ab''), V_optional None]) \<and>
   extract_argv reference_platform
     [T_arithmetic (cxx_integral True 4), T_string, T_optional T_string]
     [Some (bytes_of ''7''), Some (bytes_of ''ab''), None] =
     Inr (V_tuple [V_integral 7, V_string (bytes_of ''ab''), V_optional None])"
proof -
  let ?Ts = "[T_arithmetic (cxx_integral True 4), T_string, T_optional T_string]"
  let ?stmt = "[SQL_INTEGER 7, SQL_TEXT (bytes_of ''ab''), SQL_NULL] :: unit sqlite3_stmt"
  let ?argv = "[Some (bytes_of ''7''), Some (bytes_of ''ab''), None] :: cstr list"
  let ?xs = "[V_integral 7, V_string (bytes_of ''ab''), V_optional None] :: unit native list"
  have ext: "list_all row_value_extractable ?Ts" "argv_extractable ?Ts" "length ?xs = length ?Ts"
    by (simp_all add: argv_extractable_def)
  have s: "\<forall>i<length ?Ts. extract_stmt reference_platform (?Ts ! i) ?stmt (int i) = Inr (?xs ! i)"
    by (simp add: All_less_Suc2 arithmetic_extract_stmt_def arithmetic_tag_t_def
        static_cast_integral_def sqlite3_column_int_def sqlite3_value_int_def column_value_def
        string_of_cstr_def sqlite3_column_text_def sqlite3_column_type_def c_str_def bytes_of_def
        SQLITE_NULL_def SQLITE_TEXT_def)
  have t: "\<forall>i<length ?Ts. i < length ?argv \<and>
      extract_text reference_platform (?Ts ! i) (?argv ! i) = Inr (?xs ! i)"
    by (simp add: All_less_Suc2 arithmetic_extract_text_def arithmetic_tag_t_def
        static_cast_integral_def atoi_def strtol10_def isspace_def isdigit_def
        string_of_cstr_def c_str_def bytes_of_def)
  from tuple_is_positional [of reference_platform ?Ts ?stmt 0 ?xs ?argv] ext s t
  show ?thesis by blast
qed

subsection \<open>C7: NULL and the text types\<close>

text \<open>
  C7, as amended. For \<^verbatim>\<open>std::string\<close> (and the classes derived from it) and for
  \<^verbatim>\<open>std::wstring\<close>, on every path, a NULL value is decoded to the empty string and the
  decoding does not fail. The decoding of \<^verbatim>\<open>std::string\<close> never fails, whatever the
  value. From column text and from a column, the decoding of \<^verbatim>\<open>std::wstring\<close> fails
  exactly when the text is not null and \<^verbatim>\<open>from_bytes\<close> throws on it; the error is
  \<open>range_error\<close>. From a boxed value the decoding of \<^verbatim>\<open>std::wstring\<close> does not fail
  where \<^verbatim>\<open>wchar_t\<close> is two bytes wide.
\<close>

theorem text_null_is_empty_string:
  "extract_text P T_string None = Inr (V_string []) \<and>
   extract_text P T_wstring None = Inr (V_wstring []) \<and>
   (sqlite3_column_type stmt columnIndex = SQLITE_NULL \<longrightarrow>
      extract_stmt P T_string stmt columnIndex = Inr (V_string []) \<and>
      extract_stmt P T_wstring stmt columnIndex = Inr (V_wstring [])) \<and>
   (sqlite3_value_type v = SQLITE_NULL \<longrightarrow>
      extract_value P T_string v = Inr (V_string []) \<and>
      extract_value P T_wstring v = Inr (V_wstring [])) \<and>
   (\<exists>s. extract_text P T_string columnText = Inr (V_string s)) \<and>
   (\<exists>s. extract_stmt P T_string stmt columnIndex = Inr (V_string s)) \<and>
   (\<exists>s. extract_value P T_string v = Inr (V_string s)) \<and>
   (sizeof_wchar_t P = two_bytes \<longrightarrow> (\<exists>w. extract_value P T_wstring v = Inr (V_wstring w))) \<and>
   (extract_text P T_wstring columnText = Inl e \<longleftrightarrow>
      e = range_error \<and> (\<exists>m. columnText = Some m \<and> from_bytes P (c_str m) = None)) \<and>
   (extract_stmt P T_wstring stmt columnIndex = Inl e \<longleftrightarrow>
      e = range_error \<and>
      (\<exists>m. sqlite3_column_text P stmt columnIndex = Some m \<and> from_bytes P (c_str m) = None))"
proof -
  have 1: "extract_text P T_string None = Inr (V_string [])"
    "extract_text P T_wstring None = Inr (V_wstring [])"
    by (simp_all add: string_of_cstr_def wstring_from_bytes_def)
  have 2: "sqlite3_column_type stmt columnIndex = SQLITE_NULL \<longrightarrow>
      extract_stmt P T_string stmt columnIndex = Inr (V_string []) \<and>
      extract_stmt P T_wstring stmt columnIndex = Inr (V_wstring [])"
    by (simp add: sqlite3_column_type_def sqlite3_column_text_def value_type_NULL_iff [of _ P]
        string_of_cstr_def wstring_from_bytes_def)
  have 3: "sqlite3_value_type v = SQLITE_NULL \<longrightarrow>
      extract_value P T_string v = Inr (V_string []) \<and>
      extract_value P T_wstring v = Inr (V_wstring [])"
    by (simp add: value_type_NULL_iff [of _ P] sqlite3_value_text16_def string_of_cstr_def
        wstring_of_text16_def)
  have 4: "\<exists>s. extract_text P T_string columnText = Inr (V_string s)"
    "\<exists>s. extract_stmt P T_string stmt columnIndex = Inr (V_string s)"
    "\<exists>s. extract_value P T_string v = Inr (V_string s)"
    by (simp_all add: string_of_cstr_def split: option.split)
  have 5: "sizeof_wchar_t P = two_bytes \<longrightarrow> (\<exists>w. extract_value P T_wstring v = Inr (V_wstring w))"
    by (simp add: wstring_of_text16_def wcs_of_units16_terminated split: option.split)
  have 6: "extract_text P T_wstring columnText = Inl e \<longleftrightarrow>
      e = range_error \<and> (\<exists>m. columnText = Some m \<and> from_bytes P (c_str m) = None)"
    by (auto simp: wstring_from_bytes_def split: option.splits)
  have 7: "extract_stmt P T_wstring stmt columnIndex = Inl e \<longleftrightarrow>
      e = range_error \<and>
      (\<exists>m. sqlite3_column_text P stmt columnIndex = Some m \<and> from_bytes P (c_str m) = None)"
    by (auto simp: wstring_from_bytes_def split: option.splits)
  from 1 2 3 4 5 6 7 show ?thesis by blast
qed

theorem text_null_is_empty_string_witness:
  "sqlite3_column_type [SQL_NULL :: unit sqlite3_value] 0 = SQLITE_NULL \<and>
   extract_stmt reference_platform T_string [SQL_NULL] 0 = Inr (V_string []) \<and>
   extract_stmt reference_platform T_wstring [SQL_NULL] 0 = Inr (V_wstring []) \<and>
   sqlite3_value_type (SQL_POINTER 4096 ''carray'' :: unit sqlite3_value) = SQLITE_NULL \<and>
   extract_value reference_platform T_string (SQL_POINTER 4096 ''carray'') = Inr (V_string []) \<and>
   extract_value reference_platform T_wstring (SQL_POINTER 4096 ''carray'') = Inr (V_wstring []) \<and>
   sizeof_wchar_t (reference_platform \<lparr>sizeof_wchar_t := two_bytes\<rparr>) = two_bytes \<and>
   (\<exists>w. extract_value (reference_platform \<lparr>sizeof_wchar_t := two_bytes\<rparr>) T_wstring
          (SQL_TEXT (bytes_of ''a'')) = Inr (V_wstring w)) \<and>
   extract_value (reference_platform \<lparr>sizeof_wchar_t := two_bytes\<rparr>) T_wstring
     (SQL_TEXT (bytes_of ''a'')) = Inr (V_wstring [0x61])"
proof -
  have h1: "sqlite3_column_type [SQL_NULL :: unit sqlite3_value] 0 = SQLITE_NULL"
    by (simp add: sqlite3_column_type_def column_value_def)
  have h2: "sqlite3_value_type (SQL_POINTER 4096 ''carray'' :: unit sqlite3_value) = SQLITE_NULL"
    by simp
  have h3: "sizeof_wchar_t (reference_platform \<lparr>sizeof_wchar_t := two_bytes\<rparr>) = two_bytes"
    by simp
  note inst = text_null_is_empty_string
    [where P = reference_platform and stmt = "[SQL_NULL]" and columnIndex = 0
      and v = "SQL_POINTER 4096 ''carray''"]
  from inst h1 have 1: "extract_stmt reference_platform T_string [SQL_NULL] 0 = Inr (V_string []) \<and>
      extract_stmt reference_platform T_wstring [SQL_NULL] 0 = Inr (V_wstring [])"
    by blast
  from inst h2 have 2:
    "extract_value reference_platform T_string (SQL_POINTER 4096 ''carray'') = Inr (V_string []) \<and>
     extract_value reference_platform T_wstring (SQL_POINTER 4096 ''carray'') = Inr (V_wstring [])"
    by blast
  from text_null_is_empty_string
    [where P = "reference_platform \<lparr>sizeof_wchar_t := two_bytes\<rparr>"
      and v = "SQL_TEXT (bytes_of ''a'')"] h3
  have 3: "\<exists>w. extract_value (reference_platform \<lparr>sizeof_wchar_t := two_bytes\<rparr>) T_wstring
          (SQL_TEXT (bytes_of ''a'')) = Inr (V_wstring w)"
    by blast
  have 4: "extract_value (reference_platform \<lparr>sizeof_wchar_t := two_bytes\<rparr>) T_wstring
     (SQL_TEXT (bytes_of ''a'')) = Inr (V_wstring [0x61])"
    by (simp add: wstring_of_text16_def sqlite3_value_text16_def reference_platform_def
        utf8_to_utf16_def utf16_units_def bytes_of_def)
  from h1 h2 h3 1 2 3 4 show ?thesis by blast
qed

text \<open>
  The claim as it was stated fails for \<^verbatim>\<open>std::wstring\<close>: the byte \<open>0xFF\<close> starts no
  sequence of UTF-8, so \<^verbatim>\<open>from_bytes\<close> throws and the decoding of the column text
  fails. Where \<^verbatim>\<open>wchar_t\<close> is four bytes wide the decoding of a boxed value fails too: of
  the text \<^verbatim>\<open>"a"\<close> the engine holds the code unit \<open>0x0061\<close> and the zero code unit, which
  are one \<^verbatim>\<open>wchar_t\<close> that is not zero, and the next read leaves the text.
\<close>

theorem wstring_text_throws_counterexample:
  "extract_text reference_platform T_wstring (Some [0xFF]) = Inl range_error \<and>
   extract_stmt reference_platform T_wstring [SQL_TEXT [0xFF]] 0 = Inl range_error \<and>
   extract_value reference_platform T_wstring (SQL_TEXT (bytes_of ''a'')) =
     Inl undefined_behaviour"
  by (simp add: wstring_from_bytes_def reference_platform_def utf8_to_utf16_def c_str_def
      sqlite3_column_text_def column_value_def wstring_of_text16_def sqlite3_value_text16_def
      utf16_units_def bytes_of_def)

subsection \<open>C8: smart pointers decode as optionals do\<close>

text \<open>
  C8. For every pointee type \<open>T\<close> and on every path, the decoder of
  \<^verbatim>\<open>std::unique_ptr<T>\<close> and \<^verbatim>\<open>std::shared_ptr<T>\<close> returns what the decoder of
  \<^verbatim>\<open>std::optional<T>\<close> returns, held by a smart pointer: the empty pointer exactly when
  the optional is absent, a pointer to \<open>x\<close> exactly when the optional holds \<open>x\<close>, and the
  same failure exactly when the optional's decoder fails.
\<close>

theorem std_ptr_decodes_as_optional:
  "extract_text P (T_std_ptr k T) columnText =
     map_sum id (optional_as_std_ptr k) (extract_text P (T_optional T) columnText) \<and>
   extract_stmt P (T_std_ptr k T) stmt columnIndex =
     map_sum id (optional_as_std_ptr k) (extract_stmt P (T_optional T) stmt columnIndex) \<and>
   extract_value P (T_std_ptr k T) v =
     map_sum id (optional_as_std_ptr k) (extract_value P (T_optional T) v) \<and>
   (extract_text P (T_std_ptr k T) columnText = Inr (V_std_ptr k r) \<longleftrightarrow>
      extract_text P (T_optional T) columnText = Inr (V_optional r)) \<and>
   (extract_stmt P (T_std_ptr k T) stmt columnIndex = Inr (V_std_ptr k r) \<longleftrightarrow>
      extract_stmt P (T_optional T) stmt columnIndex = Inr (V_optional r)) \<and>
   (extract_value P (T_std_ptr k T) v = Inr (V_std_ptr k r) \<longleftrightarrow>
      extract_value P (T_optional T) v = Inr (V_optional r)) \<and>
   (extract_text P (T_std_ptr k T) columnText = Inl e \<longleftrightarrow>
      extract_text P (T_optional T) columnText = Inl e) \<and>
   (extract_stmt P (T_std_ptr k T) stmt columnIndex = Inl e \<longleftrightarrow>
      extract_stmt P (T_optional T) stmt columnIndex = Inl e) \<and>
   (extract_value P (T_std_ptr k T) v = Inl e \<longleftrightarrow> extract_value P (T_optional T) v = Inl e)"
proof -
  have t: "extract_text P (T_std_ptr k T) columnText =
     map_sum id (optional_as_std_ptr k) (extract_text P (T_optional T) columnText)"
    by (cases "extract_text P T columnText") (auto split: option.splits)
  have s: "extract_stmt P (T_std_ptr k T) stmt columnIndex =
     map_sum id (optional_as_std_ptr k) (extract_stmt P (T_optional T) stmt columnIndex)"
    by (cases "extract_stmt P T stmt columnIndex") auto
  have b: "extract_value P (T_std_ptr k T) v =
     map_sum id (optional_as_std_ptr k) (extract_value P (T_optional T) v)"
    by (cases "extract_value P T v") auto
  have t': "(extract_text P (T_std_ptr k T) columnText = Inr (V_std_ptr k r) \<longleftrightarrow>
      extract_text P (T_optional T) columnText = Inr (V_optional r)) \<and>
      (extract_text P (T_std_ptr k T) columnText = Inl e \<longleftrightarrow>
      extract_text P (T_optional T) columnText = Inl e)"
    by (cases "extract_text P T columnText") (auto split: option.splits)
  have s': "(extract_stmt P (T_std_ptr k T) stmt columnIndex = Inr (V_std_ptr k r) \<longleftrightarrow>
      extract_stmt P (T_optional T) stmt columnIndex = Inr (V_optional r)) \<and>
      (extract_stmt P (T_std_ptr k T) stmt columnIndex = Inl e \<longleftrightarrow>
      extract_stmt P (T_optional T) stmt columnIndex = Inl e)"
    by (cases "extract_stmt P T stmt columnIndex") auto
  have b': "(extract_value P (T_std_ptr k T) v = Inr (V_std_ptr k r) \<longleftrightarrow>
      extract_value P (T_optional T) v = Inr (V_optional r)) \<and>
      (extract_value P (T_std_ptr k T) v = Inl e \<longleftrightarrow> extract_value P (T_optional T) v = Inl e)"
    by (cases "extract_value P T v") auto
  from t s b t' s' b' show ?thesis by blast
qed

subsection \<open>C9: the tuple ignores its column index\<close>

text \<open>
  C9. In cursor mode the tuple decoder ignores the column index that it is called with:
  for every tuple type, statement and column index the result is the one for column
  index 0, and the elements that it holds are those decoded from the columns
  \<open>0, ..., N - 1\<close> of the statement.
\<close>

theorem tuple_stmt_ignores_columnIndex:
  "extract_stmt P (T_tuple Ts) stmt columnIndex = extract_stmt P (T_tuple Ts) stmt 0 \<and>
   extract_stmt P (T_tuple Ts) stmt columnIndex =
     (if list_all row_value_extractable Ts
      then map_sum id V_tuple (extract_stmt_elements P Ts stmt 0)
      else Inl deleted_function) \<and>
   (extract_stmt_elements P Ts stmt 0 = Inr xs \<longleftrightarrow>
      length xs = length Ts \<and>
      (\<forall>i<length Ts. extract_stmt P (Ts ! i) stmt (int i) = Inr (xs ! i)))"
  by (simp add: extract_stmt_elements_Inr)

theorem tuple_stmt_ignores_columnIndex_witness:
  "extract_stmt reference_platform (T_tuple [T_string, T_nullptr])
     [SQL_TEXT (bytes_of ''x''), SQL_INTEGER 1] 7 =
     Inr (V_tuple [V_string (bytes_of ''x''), V_nullptr]) \<and>
   extract_stmt reference_platform (T_tuple [T_string, T_nullptr])
     [SQL_TEXT (bytes_of ''x''), SQL_INTEGER 1] 0 =
     Inr (V_tuple [V_string (bytes_of ''x''), V_nullptr])"
proof -
  let ?Ts = "[T_string, T_nullptr]"
  let ?stmt = "[SQL_TEXT (bytes_of ''x''), SQL_INTEGER 1] :: unit sqlite3_stmt"
  let ?xs = "[V_string (bytes_of ''x''), V_nullptr] :: unit native list"
  have h: "length ?xs = length ?Ts \<and>
      (\<forall>i<length ?Ts. extract_stmt reference_platform (?Ts ! i) ?stmt (int i) = Inr (?xs ! i))"
    by (simp add: All_less_Suc2 string_of_cstr_def sqlite3_column_text_def column_value_def
        c_str_def bytes_of_def)
  note inst = tuple_stmt_ignores_columnIndex [of reference_platform ?Ts ?stmt _ ?xs]
  from inst [of 0] h have e: "extract_stmt_elements reference_platform ?Ts ?stmt 0 = Inr ?xs"
    by blast
  from inst [of 7] e have 7: "extract_stmt reference_platform (T_tuple ?Ts) ?stmt 7 = Inr (V_tuple ?xs)"
    by simp
  from inst [of 7] 7 have 0: "extract_stmt reference_platform (T_tuple ?Ts) ?stmt 0 = Inr (V_tuple ?xs)"
    by simp
  from 7 0 show ?thesis by blast
qed

subsection \<open>C10: the blob decoder on column text stops at the first NUL\<close>

text \<open>
  C10. On the column-text path the decoder of \<^verbatim>\<open>std::vector<char>\<close> yields the bytes
  of the text before the first NUL byte (the length is \<^verbatim>\<open>strlen\<close>), and no byte for the
  null pointer. The column path and the boxed-value path copy all the bytes that the
  engine reports for a blob or a text. So for bytes \<open>m\<close> that the callback receives as the
  text of a column, the text path agrees with the other two exactly when \<open>m\<close> holds no NUL
  byte; with a NUL byte in \<open>m\<close> it yields fewer bytes than \<open>m\<close> has.
\<close>

theorem vector_char_text_stops_at_NUL:
  "extract_text P T_vector_char (Some m) = Inr (V_vector_char (takeWhile (\<lambda>c. c \<noteq> 0) m)) \<and>
   extract_text P T_vector_char None = Inr (V_vector_char []) \<and>
   extract_value P T_vector_char (SQL_BLOB m) = Inr (V_vector_char m) \<and>
   extract_value P T_vector_char (SQL_TEXT m) = Inr (V_vector_char m) \<and>
   extract_stmt P T_vector_char (pre @ SQL_BLOB m # post) (int (length pre)) =
     Inr (V_vector_char m) \<and>
   extract_stmt P T_vector_char (pre @ SQL_TEXT m # post) (int (length pre)) =
     Inr (V_vector_char m) \<and>
   callback_argv P (pre @ SQL_BLOB m # post) ! length pre = Some m \<and>
   callback_argv P (pre @ SQL_TEXT m # post) ! length pre = Some m \<and>
   (extract_text P T_vector_char (Some m) = extract_value P T_vector_char (SQL_BLOB m) \<longleftrightarrow>
      0 \<notin> set m) \<and>
   (0 \<in> set m \<longleftrightarrow> length (takeWhile (\<lambda>c. c \<noteq> 0) m) < length m)"
proof -
  have 1: "extract_text P T_vector_char (Some m) =
      Inr (V_vector_char (takeWhile (\<lambda>c. c \<noteq> 0) m))"
    by (simp add: byte_range_def strlen_def c_str_def length_takeWhile_le
        takeWhile_eq_take [symmetric])
  have 2: "extract_text P T_vector_char None = Inr (V_vector_char [])"
    by (simp add: byte_range_def)
  have 3: "extract_value P T_vector_char (SQL_BLOB m) = Inr (V_vector_char m)"
    "extract_value P T_vector_char (SQL_TEXT m) = Inr (V_vector_char m)"
    by (simp_all add: value_blob_bytes)
  have 4: "extract_stmt P T_vector_char (pre @ SQL_BLOB m # post) (int (length pre)) =
      Inr (V_vector_char m)"
    "extract_stmt P T_vector_char (pre @ SQL_TEXT m # post) (int (length pre)) =
      Inr (V_vector_char m)"
    by (simp_all add: sqlite3_column_blob_def sqlite3_column_bytes_def column_value_append
        value_blob_bytes)
  have 5: "callback_argv P (pre @ SQL_BLOB m # post) ! length pre = Some m"
    "callback_argv P (pre @ SQL_TEXT m # post) ! length pre = Some m"
    by (simp_all add: callback_argv_nth)
  have 6: "takeWhile (\<lambda>c. c \<noteq> 0) m = m \<longleftrightarrow> 0 \<notin> set m"
    by (auto simp: takeWhile_eq_all_conv)
  have 7: "0 \<in> set m \<longleftrightarrow> length (takeWhile (\<lambda>c. c \<noteq> 0) m) < length m"
    using 6 length_takeWhile_le [of "\<lambda>c. c \<noteq> 0" m]
    by (metis (no_types, lifting) le_neq_implies_less nat_less_le takeWhile_eq_take
        take_all_iff order_refl)
  from 1 2 3 4 5 6 7 show ?thesis by simp
qed

end
